theory Spec2Isabelle
  imports Main "HOL-Library.Sublist"
begin

section \<open>Python values and exceptions\<close>

text \<open>
  The agent handles what \<^verbatim>\<open>json.loads\<close> produces: \<^verbatim>\<open>None\<close>, booleans, integers, strings,
  lists and dictionaries. A dictionary is an association list in insertion order with one
  entry per key. JSON numbers with a fraction or an exponent (Python floats) are left out.
  Strings are lists of \<^typ>\<open>char\<close>; the model is exact for ASCII text.
\<close>

datatype json =
    JNull
  | JBool bool
  | JInt int
  | JStr string
  | JArr "json list"
  | JObj "(string \<times> json) list"

type_synonym dict = "(string \<times> json) list"

datatype exn_kind =
    AttributeError
  | TypeError
  | KeyError
  | IndexError
  | UnboundLocalError
  | JSONDecodeError
  | RecursionError
  | OtherError

text \<open>An exception is its class and the text \<^verbatim>\<open>str(e)\<close> gives. \<open>OtherError\<close> stands for every
  other subclass of \<^verbatim>\<open>Exception\<close> (a network failure of the client, say).\<close>

datatype exn = Exn (exn_kind: exn_kind) (exn_text: string)

section \<open>Operations of Python on these values\<close>

text \<open>Each operation returns \<open>Inr\<close> its value or \<open>Inl\<close> the exception CPython 3.12 raises.\<close>

definition and_also :: "exn + 'a \<Rightarrow> ('a \<Rightarrow> exn + 'b) \<Rightarrow> exn + 'b" where
  "and_also r f = (case r of Inl e \<Rightarrow> Inl e | Inr a \<Rightarrow> f a)"

definition type_name :: "json \<Rightarrow> string" where
  "type_name v =
     (case v of JNull \<Rightarrow> ''NoneType'' | JBool b \<Rightarrow> ''bool'' | JInt i \<Rightarrow> ''int''
      | JStr s \<Rightarrow> ''str'' | JArr xs \<Rightarrow> ''list'' | JObj d \<Rightarrow> ''dict'')"

text \<open>Truth value testing: \<^verbatim>\<open>if v\<close>, \<^verbatim>\<open>not v\<close>.\<close>

definition truthy :: "json \<Rightarrow> bool" where
  "truthy v =
     (case v of JNull \<Rightarrow> False | JBool b \<Rightarrow> b | JInt i \<Rightarrow> i \<noteq> 0
      | JStr s \<Rightarrow> s \<noteq> [] | JArr xs \<Rightarrow> xs \<noteq> [] | JObj d \<Rightarrow> d \<noteq> [])"

fun str_of_nat :: "nat \<Rightarrow> string" where
  "str_of_nat n =
     (if n < 10 then [''0123456789'' ! n] else str_of_nat (n div 10) @ [''0123456789'' ! (n mod 10)])"

definition str_of_int :: "int \<Rightarrow> string" where
  "str_of_int i = (if i < 0 then ''-'' @ str_of_nat (nat (- i)) else str_of_nat (nat i))"

fun join_str :: "string \<Rightarrow> string list \<Rightarrow> string" where
  "join_str sep [] = []"
| "join_str sep [x] = x"
| "join_str sep (x # y # ys) = x @ sep @ join_str sep (y # ys)"

text \<open>\<^verbatim>\<open>repr\<close> of a string: single quotes unless the text has a single quote and no double
  quote; backslash, the quote, tab, newline and carriage return escaped, other control
  characters as \<^verbatim>\<open>\xNN\<close>.\<close>

definition backslash :: char where
  "backslash = CHR 0x5C"

definition repr_char :: "char \<Rightarrow> char \<Rightarrow> string" where
  "repr_char q c =
     (if c = backslash then [backslash, backslash]
      else if c = q then [backslash, q]
      else if c = CHR 0x09 then [backslash, CHR ''t'']
      else if c = CHR 0x0A then [backslash, CHR ''n'']
      else if c = CHR 0x0D then [backslash, CHR ''r'']
      else if (of_char c :: nat) < 32 \<or> c = CHR 0x7F
        then [backslash, CHR ''x'', ''0123456789abcdef'' ! ((of_char c :: nat) div 16),
              ''0123456789abcdef'' ! ((of_char c :: nat) mod 16)]
      else [c])"

definition repr_str :: "string \<Rightarrow> string" where
  "repr_str s =
     (let q = (if CHR 0x27 \<in> set s \<and> CHR 0x22 \<notin> set s then CHR 0x22 else CHR 0x27)
      in [q] @ concat (map (repr_char q) s) @ [q])"

fun py_repr :: "json \<Rightarrow> string" where
  "py_repr JNull = ''None''"
| "py_repr (JBool b) = (if b then ''True'' else ''False'')"
| "py_repr (JInt i) = str_of_int i"
| "py_repr (JStr s) = repr_str s"
| "py_repr (JArr xs) = ''['' @ join_str '', '' (map py_repr xs) @ '']''"
| "py_repr (JObj d) =
     ''{'' @ join_str '', '' (map (\<lambda>kv. repr_str (fst kv) @ '': '' @ py_repr (snd kv)) d) @ ''}''"

text \<open>\<^verbatim>\<open>str(v)\<close>, which an f-string applies to each value it embeds.\<close>

definition py_str :: "json \<Rightarrow> string" where
  "py_str v = (case v of JStr s \<Rightarrow> s | _ \<Rightarrow> py_repr v)"

text \<open>\<^verbatim>\<open>s.strip()\<close> and \<^verbatim>\<open>s.lower()\<close>.\<close>

definition is_space :: "char \<Rightarrow> bool" where
  "is_space c = (c = CHR 0x20 \<or> (9 \<le> (of_char c :: nat) \<and> (of_char c :: nat) \<le> 13)
                 \<or> (28 \<le> (of_char c :: nat) \<and> (of_char c :: nat) \<le> 31))"

definition py_strip :: "string \<Rightarrow> string" where
  "py_strip s = rev (dropWhile is_space (rev (dropWhile is_space s)))"

definition lower_char :: "char \<Rightarrow> char" where
  "lower_char c =
     (case map_of (zip ''ABCDEFGHIJKLMNOPQRSTUVWXYZ'' ''abcdefghijklmnopqrstuvwxyz'') c of
        None \<Rightarrow> c
      | Some l \<Rightarrow> l)"

definition py_lower :: "string \<Rightarrow> string" where
  "py_lower s = map lower_char s"

text \<open>Dictionaries: \<^verbatim>\<open>d[k] = v\<close> replaces the value of a key already there, in place, and
  appends a new key.\<close>

fun assoc_set :: "('k \<times> 'v) list \<Rightarrow> 'k \<Rightarrow> 'v \<Rightarrow> ('k \<times> 'v) list" where
  "assoc_set [] k v = [(k, v)]"
| "assoc_set (p # ps) k v = (if fst p = k then (k, v) # ps else p # assoc_set ps k v)"

definition has_key :: "('k \<times> 'v) list \<Rightarrow> 'k \<Rightarrow> bool" where
  "has_key d k = (map_of d k \<noteq> None)"

text \<open>\<^verbatim>\<open>d.get(k, default)\<close> and \<^verbatim>\<open>d.setdefault(k, default)\<close> on a dictionary.\<close>

definition get_or :: "('k \<times> 'v) list \<Rightarrow> 'k \<Rightarrow> 'v \<Rightarrow> 'v" where
  "get_or d k dflt = (case map_of d k of None \<Rightarrow> dflt | Some v \<Rightarrow> v)"

definition setdefault :: "('k \<times> 'v) list \<Rightarrow> 'k \<Rightarrow> 'v \<Rightarrow> ('k \<times> 'v) list" where
  "setdefault d k dflt = (if has_key d k then d else d @ [(k, dflt)])"

text \<open>\<^verbatim>\<open>d[k]\<close> on a dictionary: \<^verbatim>\<open>KeyError\<close> on a missing key.\<close>

definition dict_item :: "dict \<Rightarrow> string \<Rightarrow> exn + json" where
  "dict_item d k = (case map_of d k of None \<Rightarrow> Inl (Exn KeyError (repr_str k)) | Some v \<Rightarrow> Inr v)"

text \<open>\<^verbatim>\<open>k in c\<close> for a string \<open>k\<close>: a key of a dictionary, an element of a list, a substring of
  a string.\<close>

definition py_contains :: "string \<Rightarrow> json \<Rightarrow> exn + bool" where
  "py_contains k c =
     (case c of
        JObj d \<Rightarrow> Inr (has_key d k)
      | JArr xs \<Rightarrow> Inr (JStr k \<in> set xs)
      | JStr s \<Rightarrow> Inr (sublist k s)
      | _ \<Rightarrow> Inl (Exn TypeError (''argument of type '' @ repr_str (type_name c) @ '' is not iterable'')))"

text \<open>\<^verbatim>\<open>c[k]\<close> for a string \<open>k\<close>.\<close>

definition py_getitem :: "json \<Rightarrow> string \<Rightarrow> exn + json" where
  "py_getitem c k =
     (case c of
        JObj d \<Rightarrow> dict_item d k
      | JArr xs \<Rightarrow> Inl (Exn TypeError ''list indices must be integers or slices, not str'')
      | JStr s \<Rightarrow> Inl (Exn TypeError (''string indices must be integers, not '' @ repr_str ''str''))
      | _ \<Rightarrow> Inl (Exn TypeError (repr_str (type_name c) @ '' object is not subscriptable'')))"

text \<open>\<^verbatim>\<open>c[0]\<close>.\<close>

definition py_first :: "json \<Rightarrow> exn + json" where
  "py_first c =
     (case c of
        JArr xs \<Rightarrow> (case xs of [] \<Rightarrow> Inl (Exn IndexError ''list index out of range'') | x # _ \<Rightarrow> Inr x)
      | JStr s \<Rightarrow> (case s of [] \<Rightarrow> Inl (Exn IndexError ''string index out of range'') | x # _ \<Rightarrow> Inr (JStr [x]))
      | JObj d \<Rightarrow> Inl (Exn KeyError ''0'')
      | _ \<Rightarrow> Inl (Exn TypeError (repr_str (type_name c) @ '' object is not subscriptable'')))"

text \<open>\<^verbatim>\<open>c[:n]\<close>.\<close>

definition py_prefix :: "nat \<Rightarrow> json \<Rightarrow> exn + json" where
  "py_prefix n c =
     (case c of
        JArr xs \<Rightarrow> Inr (JArr (take n xs))
      | JStr s \<Rightarrow> Inr (JStr (take n s))
      | JObj d \<Rightarrow> Inl (Exn KeyError (''slice(None, '' @ str_of_nat n @ '', None)''))
      | _ \<Rightarrow> Inl (Exn TypeError (repr_str (type_name c) @ '' object is not subscriptable'')))"

text \<open>\<^verbatim>\<open>len(c)\<close>.\<close>

definition py_len :: "json \<Rightarrow> exn + nat" where
  "py_len c =
     (case c of
        JArr xs \<Rightarrow> Inr (length xs)
      | JStr s \<Rightarrow> Inr (length s)
      | JObj d \<Rightarrow> Inr (length d)
      | _ \<Rightarrow> Inl (Exn TypeError (''object of type '' @ repr_str (type_name c) @ '' has no len()'')))"

text \<open>\<^verbatim>\<open>c.get(k, default)\<close>: only a dictionary has the method.\<close>

definition py_get :: "json \<Rightarrow> string \<Rightarrow> json \<Rightarrow> exn + json" where
  "py_get c k dflt =
     (case c of
        JObj d \<Rightarrow> Inr (get_or d k dflt)
      | _ \<Rightarrow> Inl (Exn AttributeError (repr_str (type_name c) @ '' object has no attribute '' @ repr_str ''get'')))"

text \<open>The values a \<^verbatim>\<open>for\<close> loop over \<open>c\<close> visits: the elements of a list, the characters of a
  string, the keys of a dictionary.\<close>

definition py_iter :: "json \<Rightarrow> exn + json list" where
  "py_iter c =
     (case c of
        JArr xs \<Rightarrow> Inr xs
      | JStr s \<Rightarrow> Inr (map (\<lambda>ch. JStr [ch]) s)
      | JObj d \<Rightarrow> Inr (map (\<lambda>kv. JStr (fst kv)) d)
      | _ \<Rightarrow> Inl (Exn TypeError (repr_str (type_name c) @ '' object is not iterable'')))"

text \<open>\<^verbatim>\<open>sep.join(c)\<close>: every item must be a string.\<close>

fun join_items :: "nat \<Rightarrow> json list \<Rightarrow> exn + string list" where
  "join_items i [] = Inr []"
| "join_items i (x # xs) =
     (case x of
        JStr s \<Rightarrow> and_also (join_items (Suc i) xs) (\<lambda>rest. Inr (s # rest))
      | _ \<Rightarrow> Inl (Exn TypeError (''sequence item '' @ str_of_nat i @ '': expected str instance, ''
                     @ type_name x @ '' found'')))"

definition py_join :: "string \<Rightarrow> json \<Rightarrow> exn + string" where
  "py_join sep c =
     (case py_iter c of
        Inl e \<Rightarrow> Inl (Exn TypeError ''can only join an iterable'')
      | Inr items \<Rightarrow> and_also (join_items 0 items) (\<lambda>strs. Inr (join_str sep strs)))"

text \<open>\<^verbatim>\<open>xs[-n:]\<close> for an integer \<open>n\<close>: the last \<open>n\<close> items when \<open>n\<close> is positive, everything
  when \<open>n\<close> is zero, and the list without its first \<open>-n\<close> items when \<open>n\<close> is negative.\<close>

definition py_last_n :: "int \<Rightarrow> 'a list \<Rightarrow> 'a list" where
  "py_last_n n xs = (if 0 < n then drop (length xs - nat n) xs else drop (nat (- n)) xs)"

section \<open>The world outside the agent\<close>

text \<open>
  A reply of the language model as the agent reads it: \<^verbatim>\<open>message.tool_calls\<close> is the list of
  structured calls (function name, argument text), empty when the attribute is missing, \<^verbatim>\<open>None\<close>
  or \<^verbatim>\<open>[]\<close>; \<^verbatim>\<open>message.content\<close> is the reply text or \<^verbatim>\<open>None\<close>.
\<close>

record message =
  msg_tool_calls :: "(string \<times> string) list"
  msg_content :: "string option"

datatype completion = Fails exn | Reply message

text \<open>What the agent asks of the model. The repair and compaction prompts are built in the
  source and are recorded as text; the other prompts are rendered from templates of
  \<^verbatim>\<open>prompt.yaml\<close> and are recorded by the values handed to the template.\<close>

datatype request =
    Repair_request string
  | Compress_request string
  | Next_request string
  | Reflection_request json string string
  | Analysis_request int json string string

text \<open>
  The world holds the answers \<^verbatim>\<open>litellm.completion\<close> will give, in call order, the lines
  \<^verbatim>\<open>input()\<close> will read, the verdicts of the flag confirmation callback and the results of the
  tools' \<^verbatim>\<open>execute\<close>; it records the requests made, the tool calls made, the flag candidates
  shown to the callback and the seconds slept.
\<close>

datatype tool_result = Tool_raises exn | Tool_returns string string

record world =
  completions :: "completion list"
  stdin :: "string list"
  confirmations :: "bool list"
  tool_results :: "tool_result list"
  requests :: "request list"
  executed :: "(string \<times> json) list"
  candidates :: "json list"
  slept :: nat

text \<open>A call returns a value, raises, or is cut off because the world ran out of answers
  (\<open>Starved\<close>): about a cut-off run nothing is claimed.\<close>

datatype 'a outcome = Returns 'a world | Raises exn world | Starved

definition and_then :: "'a outcome \<Rightarrow> ('a \<Rightarrow> world \<Rightarrow> 'b outcome) \<Rightarrow> 'b outcome" where
  "and_then x f = (case x of Returns a w \<Rightarrow> f a w | Raises e w \<Rightarrow> Raises e w | Starved \<Rightarrow> Starved)"

definition lift :: "exn + 'a \<Rightarrow> world \<Rightarrow> 'a outcome" where
  "lift r w = (case r of Inl e \<Rightarrow> Raises e w | Inr a \<Rightarrow> Returns a w)"

text \<open>\<^verbatim>\<open>litellm.completion(...)\<close>: the next answer of the model.\<close>

definition completion :: "request \<Rightarrow> world \<Rightarrow> message outcome" where
  "completion req w =
     (case completions w of
        [] \<Rightarrow> Starved
      | c # cs \<Rightarrow>
          (let w' = w\<lparr>completions := cs, requests := requests w @ [req]\<rparr>
           in case c of Fails e \<Rightarrow> Raises e w' | Reply m \<Rightarrow> Returns m w'))"

text \<open>What the Python runtime supplies: \<^verbatim>\<open>json.loads\<close> on a string, and \<^verbatim>\<open>hash\<close> on a string.\<close>

record runtime =
  json_loads :: "string \<Rightarrow> exn + json"
  str_hash :: "string \<Rightarrow> int"

section \<open>utils.py\<close>

definition fix_prompt :: "string \<Rightarrow> exn \<Rightarrow> string" where
  \<open>fix_prompt json_str err_content =
     ''The following string is invalid JSON. Repair it so that it becomes valid JSON.\<newline>''
     @ ''Return only the corrected JSON'' @ [CHR 0xE2, CHR 0x80, CHR 0x94]
     @ ''do not add any extra narration.\<newline>''
     @ ''Preserve every original key and value without altering their meaning.\<newline>\<newline>''
     @ ''Malformed JSON: '' @ json_str @ ''\<newline>''
     @ ''Error message: '' @ exn_text err_content\<close>

text \<open>The \<^verbatim>\<open>while True\<close> loop of \<^verbatim>\<open>fix_json_with_llm\<close> (the configuration is taken to load). The bare \<^verbatim>\<open>except\<close> swallows every failure
  of \<^verbatim>\<open>json.loads\<close>, also the \<^verbatim>\<open>TypeError\<close> on a reply whose content is \<^verbatim>\<open>None\<close>; a failure of
  the completion call itself is outside the \<^verbatim>\<open>try\<close> and propagates.\<close>

function repair_loop :: "runtime \<Rightarrow> string \<Rightarrow> world \<Rightarrow> string outcome" where
  "repair_loop rt prompt w =
     (case completion (Repair_request prompt) w of
        Starved \<Rightarrow> Starved
      | Raises e w' \<Rightarrow> Raises e w'
      | Returns m w' \<Rightarrow>
          (case msg_content m of
             None \<Rightarrow> repair_loop rt prompt w'
           | Some fixed_json \<Rightarrow>
               (case json_loads rt fixed_json of
                  Inr v \<Rightarrow> Returns fixed_json w'
                | Inl e \<Rightarrow> repair_loop rt prompt w')))"
  by pat_completeness auto
termination
  by (relation "measure (\<lambda>(rt, prompt, w). length (completions w))")
     (auto simp: completion_def Let_def split: list.splits completion.splits)

declare repair_loop.simps [simp del]

definition fix_json_with_llm :: "runtime \<Rightarrow> string \<Rightarrow> exn \<Rightarrow> world \<Rightarrow> string outcome" where
  "fix_json_with_llm rt json_str err_content w = repair_loop rt (fix_prompt json_str err_content) w"

text \<open>A reply the repair loop does not return: one without text, or whose text does not
  parse. (A completion call that raises ends the loop with that exception.)\<close>

definition rejected :: "runtime \<Rightarrow> completion \<Rightarrow> bool" where
  "rejected rt c =
     (case c of
        Fails e \<Rightarrow> False
      | Reply m \<Rightarrow> (case msg_content m of None \<Rightarrow> True | Some s \<Rightarrow> isl (json_loads rt s)))"

text \<open>\<^verbatim>\<open>optimize_text\<close>: runs of two or more spaces become one space (through a NUL marker, so a
  NUL of the text becomes a space too), runs of newlines one newline, and the lines that are
  empty or all whitespace are dropped.\<close>

fun spaces_to_marker :: "string \<Rightarrow> string" where
  "spaces_to_marker (a # b # cs) =
     (if a = CHR 0x20 \<and> b = CHR 0x20
      then (case cs of
              [] \<Rightarrow> [CHR 0x00]
            | c # _ \<Rightarrow> if c = CHR 0x20 then spaces_to_marker (b # cs) else CHR 0x00 # spaces_to_marker cs)
      else a # spaces_to_marker (b # cs))"
| "spaces_to_marker cs = cs"

fun squeeze_newlines :: "string \<Rightarrow> string" where
  "squeeze_newlines (a # b # cs) =
     (if a = CHR 0x0A \<and> b = CHR 0x0A then squeeze_newlines (b # cs) else a # squeeze_newlines (b # cs))"
| "squeeze_newlines cs = cs"

definition is_linebreak :: "char \<Rightarrow> bool" where
  "is_linebreak c = (c \<in> set [CHR 0x0A, CHR 0x0D, CHR 0x0B, CHR 0x0C, CHR 0x1C, CHR 0x1D, CHR 0x1E])"

fun splitlines :: "string \<Rightarrow> string \<Rightarrow> string list" where
  "splitlines cur [] = [rev cur]"
| "splitlines cur (c # cs) = (if is_linebreak c then rev cur # splitlines [] cs else splitlines (c # cur) cs)"

definition optimize_text :: "string \<Rightarrow> string" where
  "optimize_text text =
     (let text1 = spaces_to_marker text;
          text2 = map (\<lambda>c. if c = CHR 0x00 then CHR 0x20 else c) text1;
          text3 = squeeze_newlines text2;
          lines = filter (\<lambda>line. py_strip line \<noteq> []) (splitlines [] text3)
      in join_str ''\<newline>'' lines)"

section \<open>memory.py\<close>

text \<open>The fields of \<^verbatim>\<open>Memory\<close> its methods read or write. A key of \<^verbatim>\<open>failed_attempts\<close> is kept
  the way Python compares keys: \<^verbatim>\<open>True\<close> and \<^verbatim>\<open>1\<close> are one key, \<^verbatim>\<open>False\<close> and \<^verbatim>\<open>0\<close> another; a
  list or a dictionary is no key.\<close>

record memory =
  compression_threshold :: int
  history :: "dict list"
  compressed_memory :: "dict list"
  key_facts :: "(string \<times> string) list"
  failed_attempts :: "(json \<times> int) list"

definition hash_key :: "json \<Rightarrow> exn + json" where
  "hash_key k =
     (case k of
        JArr xs \<Rightarrow> Inl (Exn TypeError (''unhashable type: '' @ repr_str ''list''))
      | JObj d \<Rightarrow> Inl (Exn TypeError (''unhashable type: '' @ repr_str ''dict''))
      | JBool b \<Rightarrow> Inr (JInt (if b then 1 else 0))
      | _ \<Rightarrow> Inr k)"

text \<open>\<^verbatim>\<open>self.failed_attempts[k] = self.failed_attempts.get(k, 0) + 1\<close>\<close>

definition bump :: "(json \<times> int) list \<Rightarrow> json \<Rightarrow> exn + (json \<times> int) list" where
  "bump fa k = and_also (hash_key k) (\<lambda>k'. Inr (assoc_set fa k' (get_or fa k' 0 + 1)))"

text \<open>\<^verbatim>\<open>step["output"][:256] + ("..." if len(step["output"]) > 256 else "")\<close>\<close>

definition output_summary :: "json \<Rightarrow> exn + string" where
  \<open>output_summary out =
     and_also (py_prefix 256 out) (\<lambda>head.
     and_also (py_len out) (\<lambda>n.
       case head of
         JStr s \<Rightarrow> Inr (s @ (if 256 < n then ''...'' else []))
       | _ \<Rightarrow> Inl (Exn TypeError ''can only concatenate list (not "str") to list'')))\<close>

definition extract_key_facts :: "runtime \<Rightarrow> dict \<Rightarrow> (string \<times> string) list \<Rightarrow> exn + (string \<times> string) list" where
  "extract_key_facts rt step kf =
     and_also
       (case (map_of step ''content'', map_of step ''output'') of
          (Some command, Some out) \<Rightarrow>
            and_also (output_summary out) (\<lambda>summary.
              Inr (assoc_set kf ''command'' (''Command: '' @ py_str command @ '', Result: '' @ summary)))
        | _ \<Rightarrow> Inr kf)
       (\<lambda>kf1.
          case map_of step ''analysis'' of
            None \<Rightarrow> Inr kf1
          | Some a \<Rightarrow>
              and_also (py_contains ''analysis'' a) (\<lambda>present.
                if \<not> present then Inr kf1
                else and_also (py_getitem a ''analysis'') (\<lambda>analysis.
                  case analysis of
                    JStr text \<Rightarrow>
                      if sublist ''key finding'' (py_lower text) \<or> sublist ''key findings'' (py_lower text)
                      then Inr (assoc_set kf1 (''finding:'' @ str_of_int (str_hash rt text)) text)
                      else Inr kf1
                  | _ \<Rightarrow> Inr kf1)))"

text \<open>The failure counter of \<^verbatim>\<open>add_step\<close>: counted when the analysis has a \<^verbatim>\<open>success\<close> entry
  that is false.\<close>

definition track_failed_attempt :: "dict \<Rightarrow> (json \<times> int) list \<Rightarrow> exn + (json \<times> int) list" where
  "track_failed_attempt step fa =
     (case map_of step ''analysis'' of
        None \<Rightarrow> Inr fa
      | Some a \<Rightarrow>
          and_also (py_contains ''success'' a) (\<lambda>present.
            if \<not> present then Inr fa
            else and_also (py_getitem a ''success'') (\<lambda>success.
              if truthy success then Inr fa else bump fa (get_or step ''content'' (JStr [])))))"

subsection \<open>compress_memory\<close>

definition compress_header :: string where
  \<open>compress_header =
     ''You are a CTF solving assistant. Compress the solving history by completing these tasks:\<newline>''
     @ ''1. Identify key technical findings and discoveries.\<newline>''
     @ ''2. Record solutions that were attempted but failed.\<newline>''
     @ ''3. Summarise the current progress and suggest next steps.\<newline>''
     @ ''4. Return a JSON object with the structure:\<newline>''
     @ ''{\<newline>''
     @ ''  "key_findings": ["Finding 1", "Finding 2"],\<newline>''
     @ ''  "failed_attempts": ["Command 1", "Command 2"],\<newline>''
     @ ''  "current_status": "Status description",\<newline>''
     @ ''  "next_steps": ["Suggestion 1", "Suggestion 2"]\<newline>''
     @ ''}\<newline>\<newline>''
     @ ''History:\<newline>''\<close>

text \<open>The lines for the latest \<open>n\<close> key facts.\<close>

definition fact_lines :: "int \<Rightarrow> (string \<times> string) list \<Rightarrow> string" where
  "fact_lines n kf = concat (map (\<lambda>kv. ''- '' @ snd kv @ ''\<newline>'') (py_last_n n kf))"

text \<open>What the compaction prompt says of one step, numbered from 1: \<^verbatim>\<open>step['content']\<close> raises
  \<^verbatim>\<open>KeyError\<close> on a step without the key.\<close>

definition step_prompt :: "nat \<Rightarrow> dict \<Rightarrow> exn + string" where
  "step_prompt i step =
     and_also (dict_item step ''content'') (\<lambda>command.
     and_also (case map_of step ''analysis'' of
                 None \<Rightarrow> Inr []
               | Some a \<Rightarrow> and_also (py_get a ''analysis'' (JStr ''No analysis''))
                            (\<lambda>analysis. Inr (''- Analysis: '' @ py_str analysis @ ''\<newline>'')))
       (\<lambda>analysis_line.
          Inr (''\<newline>Step '' @ str_of_nat (i + 1) @ '':\<newline>''
               @ ''- Purpose: '' @ py_str (get_or step ''purpose'' (JStr ''unspecified'')) @ ''\<newline>''
               @ ''- Command: '' @ py_str command @ ''\<newline>''
               @ analysis_line)))"

fun steps_prompt :: "nat \<Rightarrow> dict list \<Rightarrow> exn + string" where
  "steps_prompt i [] = Inr []"
| "steps_prompt i (step # steps) =
     and_also (step_prompt i step) (\<lambda>first.
     and_also (steps_prompt (Suc i) steps) (\<lambda>rest. Inr (first @ rest)))"

definition compress_prompt :: "memory \<Rightarrow> exn + string" where
  "compress_prompt m =
     and_also (steps_prompt 0 (py_last_n (compression_threshold m) (history m))) (\<lambda>steps.
       Inr (compress_header @ ''Key facts summary:\<newline>'' @ fact_lines 5 (key_facts m) @ steps))"

text \<open>The \<^verbatim>\<open>for attempt in ...\<close> loop of the \<^verbatim>\<open>try\<close> block: the counters as they stand when the
  loop ends or raises, and the exception if it raised.\<close>

fun count_attempts :: "json list \<Rightarrow> (json \<times> int) list \<Rightarrow> (json \<times> int) list \<times> exn option" where
  "count_attempts [] fa = (fa, None)"
| "count_attempts (attempt # rest) fa =
     (case bump fa attempt of Inl e \<Rightarrow> (fa, Some e) | Inr fa' \<Rightarrow> count_attempts rest fa')"

text \<open>The \<^verbatim>\<open>try\<close> block after \<^verbatim>\<open>json.loads\<close>: the memory as it stands when the block ends or
  raises, and the exception if it raised. The block is stored before the last statement
  reads its \<^verbatim>\<open>key_findings\<close>.\<close>

definition store_compressed :: "json \<Rightarrow> memory \<Rightarrow> memory \<times> exn option" where
  "store_compressed compressed_data m =
     (case py_get compressed_data ''failed_attempts'' (JArr []) of
        Inl e \<Rightarrow> (m, Some e)
      | Inr attempts \<Rightarrow>
          (case py_iter attempts of
             Inl e \<Rightarrow> (m, Some e)
           | Inr items \<Rightarrow>
               (case count_attempts items (failed_attempts m) of
                  (fa, Some e) \<Rightarrow> (m\<lparr>failed_attempts := fa\<rparr>, Some e)
                | (fa, None) \<Rightarrow>
                    (case compressed_data of
                       JObj d \<Rightarrow>
                         (let block = assoc_set d ''source_steps'' (JInt (int (length (history m))));
                              m' = m\<lparr>failed_attempts := fa,
                                     compressed_memory := compressed_memory m @ [block]\<rparr>
                          in case and_also (dict_item block ''key_findings'') py_len of
                               Inl e \<Rightarrow> (m', Some e)
                             | Inr n \<Rightarrow> (m', None))
                     | _ \<Rightarrow> (m\<lparr>failed_attempts := fa\<rparr>,
                             Some (Exn TypeError (repr_str (type_name compressed_data)
                                    @ '' object does not support item assignment'')))))))"

text \<open>The two \<^verbatim>\<open>except\<close> clauses. \<open>response\<close> is the reply when \<^verbatim>\<open>response\<close> is bound.\<close>

definition handle_failure :: "exn \<Rightarrow> message option \<Rightarrow> memory \<Rightarrow> exn + memory" where
  "handle_failure e response m =
     (if exn_kind e = JSONDecodeError \<or> exn_kind e = KeyError
      then and_also
             (case response of
                None \<Rightarrow> Inr ''Compression failed''
              | Some msg \<Rightarrow>
                  (case msg_content msg of
                     None \<Rightarrow> Inl (Exn AttributeError (repr_str ''NoneType'' @ '' object has no attribute ''
                                       @ repr_str ''strip''))
                   | Some text \<Rightarrow> Inr (py_strip text)))
             (\<lambda>fallback.
                Inr (m\<lparr>compressed_memory := compressed_memory m
                         @ [[(''fallback_summary'', JStr fallback),
                             (''source_steps'', JInt (int (length (history m))))]]\<rparr>))
      else Inr (m\<lparr>compressed_memory := compressed_memory m
                    @ [[(''error'', JStr (''Compression failed: '' @ exn_text e)),
                        (''source_steps'', JInt (int (length (history m))))]]\<rparr>))"

text \<open>\<^verbatim>\<open>keep_last = min(4, len(self.history)); self.history = self.history[-keep_last:]\<close>\<close>

definition keep_last_steps :: "memory \<Rightarrow> memory" where
  "keep_last_steps m = m\<lparr>history := py_last_n (min 4 (int (length (history m)))) (history m)\<rparr>"

definition after_try :: "exn + memory \<Rightarrow> world \<Rightarrow> memory outcome" where
  "after_try r w = (case r of Inl e \<Rightarrow> Raises e w | Inr m \<Rightarrow> Returns (keep_last_steps m) w)"

definition compress_memory :: "runtime \<Rightarrow> memory \<Rightarrow> world \<Rightarrow> memory outcome" where
  "compress_memory rt m w =
     (if history m = [] then Returns m w
      else
        (case compress_prompt m of
           Inl e \<Rightarrow> Raises e w
         | Inr prompt \<Rightarrow>
             (case completion (Compress_request (optimize_text prompt)) w of
                Starved \<Rightarrow> Starved
              | Raises e w' \<Rightarrow> after_try (handle_failure e None m) w'
              | Returns msg w' \<Rightarrow>
                  (case msg_content msg of
                     None \<Rightarrow>
                       after_try (handle_failure
                         (Exn AttributeError (repr_str ''NoneType'' @ '' object has no attribute ''
                            @ repr_str ''strip'')) (Some msg) m) w'
                   | Some text \<Rightarrow>
                       (case json_loads rt (py_strip text) of
                          Inl e \<Rightarrow> after_try (handle_failure e (Some msg) m) w'
                        | Inr compressed_data \<Rightarrow>
                            (case store_compressed compressed_data m of
                               (m', None) \<Rightarrow> after_try (Inr m') w'
                             | (m', Some e) \<Rightarrow> after_try (handle_failure e (Some msg) m') w'))))))"

subsection \<open>add_step\<close>

definition add_step :: "runtime \<Rightarrow> dict \<Rightarrow> memory \<Rightarrow> world \<Rightarrow> memory outcome" where
  "add_step rt step m w =
     (let m1 = m\<lparr>history := history m @ [step]\<rparr>
      in case extract_key_facts rt step (key_facts m1) of
           Inl e \<Rightarrow> Raises e w
         | Inr kf \<Rightarrow>
             (case track_failed_attempt step (failed_attempts m1) of
                Inl e \<Rightarrow> Raises e w
              | Inr fa \<Rightarrow>
                  (let m2 = m1\<lparr>key_facts := kf, failed_attempts := fa\<rparr>
                   in if compression_threshold m2 \<le> int (length (history m2))
                      then compress_memory rt m2 w
                      else Returns m2 w)))"

subsection \<open>get_summary\<close>

text \<open>\<^verbatim>\<open>', '.join(v[:3])\<close> after the label, \<^verbatim>\<open>and N more\<close> when \<open>v\<close> has more than three items,
  and the end of the line.\<close>

definition shown_items :: "string \<Rightarrow> json \<Rightarrow> exn + string" where
  "shown_items label v =
     and_also (py_prefix 3 v) (\<lambda>head.
     and_also (py_join '', '' head) (\<lambda>joined.
     and_also (py_len v) (\<lambda>n.
       Inr (label @ joined @ (if 3 < n then '' and '' @ str_of_nat (n - 3) @ '' more'' else [])
            @ ''\<newline>''))))"

text \<open>One compressed block, the \<open>i\<close>-th of those shown, of \<open>len\<close> blocks stored.
  \<^verbatim>\<open>mem['next_steps'][0]\<close> raises \<^verbatim>\<open>IndexError\<close> on an empty list.\<close>

definition block_summary :: "nat \<Rightarrow> nat \<Rightarrow> dict \<Rightarrow> exn + string" where
  "block_summary len i mem =
     and_also (case map_of mem ''key_findings'' of
                 None \<Rightarrow> Inr []
               | Some v \<Rightarrow>
                   and_also (shown_items ''- Key findings: '' v) (\<lambda>line.
                     Inr (''- Status: '' @ py_str (get_or mem ''current_status'' (JStr ''unknown''))
                          @ ''\<newline>'' @ line))) (\<lambda>findings.
     and_also (case map_of mem ''failed_attempts'' of
                 None \<Rightarrow> Inr []
               | Some v \<Rightarrow> shown_items ''- Failed attempts: '' v) (\<lambda>failed.
     and_also (case map_of mem ''next_steps'' of
                 None \<Rightarrow> Inr []
               | Some v \<Rightarrow>
                   and_also (py_first v) (\<lambda>first.
                     Inr (''- Suggested next step: '' @ py_str first @ ''\<newline>''))) (\<lambda>next_step.
     and_also (dict_item mem ''source_steps'') (\<lambda>source.
       Inr (''Block #'' @ str_of_int (int len - int i) @ '':\<newline>''
            @ findings @ failed @ next_step
            @ ''- Source: based on '' @ py_str source @ '' historical steps\<newline>\<newline>'')))))"

fun blocks_summary :: "nat \<Rightarrow> nat \<Rightarrow> dict list \<Rightarrow> exn + string" where
  "blocks_summary len i [] = Inr []"
| "blocks_summary len i (mem # mems) =
     and_also (block_summary len i mem) (\<lambda>first.
     and_also (blocks_summary len (Suc i) mems) (\<lambda>rest. Inr (first @ rest)))"

text \<open>One step of the active history, the \<open>i\<close>-th of \<open>len\<close>. \<^verbatim>\<open>step["content"] in
  self.failed_attempts\<close> hashes the content.\<close>

definition step_summary :: "(json \<times> int) list \<Rightarrow> nat \<Rightarrow> nat \<Rightarrow> dict \<Rightarrow> exn + string" where
  "step_summary fa len i step =
     and_also (dict_item step ''content'') (\<lambda>command.
     and_also (case map_of step ''output'' of
                 None \<Rightarrow> Inr []
               | Some out \<Rightarrow>
                   and_also (py_prefix 512 out) (\<lambda>head.
                   and_also (py_len out) (\<lambda>n.
                     Inr (''- Output: '' @ py_str head @ (if 512 < n then ''...'' else [])
                          @ ''\<newline>'')))) (\<lambda>output_line.
     and_also (case map_of step ''analysis'' of
                 None \<Rightarrow> Inr []
               | Some a \<Rightarrow>
                   and_also (py_get a ''analysis'' (JStr ''No analysis'')) (\<lambda>analysis.
                     Inr (''- Analysis: '' @ py_str analysis @ ''\<newline>''))) (\<lambda>analysis_line.
     and_also (hash_key command) (\<lambda>key.
       Inr (''Step '' @ str_of_nat (len - i) @ '':\<newline>''
            @ ''- Purpose: '' @ py_str (get_or step ''purpose'' (JStr ''unspecified'')) @ ''\<newline>''
            @ ''- Command: '' @ py_str command @ ''\<newline>''
            @ output_line @ analysis_line
            @ (case map_of fa key of
                 None \<Rightarrow> []
               | Some n \<Rightarrow> ''- Historical failure count: '' @ str_of_int n @ ''\<newline>'')
            @ ''\<newline>'')))))"

fun steps_summary :: "(json \<times> int) list \<Rightarrow> nat \<Rightarrow> nat \<Rightarrow> dict list \<Rightarrow> exn + string" where
  "steps_summary fa len i [] = Inr []"
| "steps_summary fa len i (step # steps) =
     and_also (step_summary fa len i step) (\<lambda>first.
     and_also (steps_summary fa len (Suc i) steps) (\<lambda>rest. Inr (first @ rest)))"

definition get_summary :: "bool \<Rightarrow> memory \<Rightarrow> exn + string" where
  "get_summary include_key_facts m =
     and_also (if compressed_memory m \<noteq> []
               then and_also (blocks_summary (length (compressed_memory m)) 0
                                (py_last_n 3 (compressed_memory m)))
                      (\<lambda>blocks. Inr (''Compressed memory blocks:\<newline>'' @ blocks))
               else Inr []) (\<lambda>blocks.
     and_also (if history m \<noteq> []
               then and_also (steps_summary (failed_attempts m) (length (history m)) 0 (history m))
                      (\<lambda>steps. Inr (''Recent detailed steps:\<newline>'' @ steps))
               else Inr []) (\<lambda>steps.
       let facts = (if include_key_facts \<and> key_facts m \<noteq> []
                    then ''Key facts:\<newline>'' @ fact_lines 10 (key_facts m) @ ''\<newline>''
                    else []);
           summary = facts @ blocks @ steps
       in Inr (if summary \<noteq> [] then summary else ''No history'')))"

section \<open>solve_agent.py\<close>

text \<open>The fields of \<^verbatim>\<open>SolveAgent\<close> the solving loop reads: its memory, the run mode, the names
  under which tools are registered, and whether the flag confirmation callback is set. The
  problem text, the category and the plan only fill the prompt templates.\<close>

record agent =
  agent_memory :: memory
  auto_mode :: bool
  tools :: "string list"
  has_confirm_callback :: bool

subsection \<open>parse_tool_response\<close>

text \<open>\<^verbatim>\<open>args.setdefault("purpose", "Execute action"); args.setdefault("content", "")\<close>: only a
  dictionary has the method.\<close>

definition with_defaults :: "json \<Rightarrow> exn + json" where
  "with_defaults args =
     (case args of
        JObj d \<Rightarrow> Inr (JObj (setdefault (setdefault d ''purpose'' (JStr ''Execute action''))
                                ''content'' (JStr [])))
      | _ \<Rightarrow> Inl (Exn AttributeError (repr_str (type_name args) @ '' object has no attribute ''
                      @ repr_str ''setdefault'')))"

definition canonical :: "json \<Rightarrow> json \<Rightarrow> json" where
  "canonical func_name args = JObj [(''tool_name'', func_name), (''arguments'', args)]"

text \<open>Case 2 after the text is parsed. When the document has no \<^verbatim>\<open>tool_calls\<close> entry, or an
  empty one, \<^verbatim>\<open>func_name\<close> and \<^verbatim>\<open>args\<close> are never bound and the first \<^verbatim>\<open>logger.info\<close> line raises
  \<^verbatim>\<open>UnboundLocalError\<close>.\<close>

definition action_of_document :: "json \<Rightarrow> exn + json" where
  "action_of_document data =
     and_also (py_contains ''tool_calls'' data) (\<lambda>present.
     and_also (if present then py_getitem data ''tool_calls'' else Inr JNull) (\<lambda>calls.
       if present \<and> truthy calls
       then and_also (py_first calls) (\<lambda>tool_call.
            and_also (py_get tool_call ''name'' (JStr ''tool_parse_failed'')) (\<lambda>func_name.
            and_also (py_get tool_call ''arguments'' (JObj [])) (\<lambda>args.
            and_also (with_defaults args) (\<lambda>args'. Inr (canonical func_name args')))))
       else Inl (Exn UnboundLocalError
                  (''cannot access local variable '' @ repr_str ''func_name''
                   @ '' where it is not associated with a value''))))"

text \<open>Case 1 takes the first structured call. When its argument text does not parse, \<^verbatim>\<open>args\<close>
  is bound to the string \<^verbatim>\<open>fix_json_with_llm\<close> returns, which is not parsed.\<close>

definition parse_tool_response :: "runtime \<Rightarrow> message \<Rightarrow> world \<Rightarrow> json outcome" where
  "parse_tool_response rt msg w =
     (case msg_tool_calls msg of
        tool_call # _ \<Rightarrow>
          (case json_loads rt (snd tool_call) of
             Inr args \<Rightarrow>
               lift (and_also (with_defaults args) (\<lambda>args'. Inr (canonical (JStr (fst tool_call)) args'))) w
           | Inl e \<Rightarrow>
               if exn_kind e = JSONDecodeError
               then and_then (fix_json_with_llm rt (snd tool_call) e w) (\<lambda>fixed w'.
                      lift (and_also (with_defaults (JStr fixed))
                              (\<lambda>args'. Inr (canonical (JStr (fst tool_call)) args'))) w')
               else Raises e w)
      | [] \<Rightarrow>
          (case msg_content msg of
             None \<Rightarrow> Raises (Exn AttributeError (repr_str ''NoneType'' @ '' object has no attribute ''
                                @ repr_str ''strip'')) w
           | Some text \<Rightarrow>
               (case json_loads rt (py_strip text) of
                  Inr data \<Rightarrow> lift (action_of_document data) w
                | Inl e \<Rightarrow>
                    if exn_kind e = JSONDecodeError
                    then and_then (fix_json_with_llm rt (py_strip text) e w) (\<lambda>fixed w'.
                           case json_loads rt fixed of
                             Inr data \<Rightarrow> lift (action_of_document data) w'
                           | Inl e' \<Rightarrow> Raises e' w')
                    else Returns (JObj []) w)))"

subsection \<open>generate_next_step and reflection\<close>

definition generate_next_step :: "runtime \<Rightarrow> agent \<Rightarrow> world \<Rightarrow> json outcome" where
  "generate_next_step rt ag w =
     and_then (lift (get_summary True (agent_memory ag)) w) (\<lambda>history_summary w1.
     and_then (completion (Next_request history_summary) w1) (\<lambda>response w2.
       parse_tool_response rt response w2))"

definition reflection :: "runtime \<Rightarrow> agent \<Rightarrow> json \<Rightarrow> string \<Rightarrow> world \<Rightarrow> json outcome" where
  "reflection rt ag purpose feedback w =
     and_then (lift (get_summary True (agent_memory ag)) w) (\<lambda>history_summary w1.
     and_then (completion (Reflection_request purpose feedback history_summary) w1) (\<lambda>response w2.
       parse_tool_response rt response w2))"

subsection \<open>The worlds a call can leave behind\<close>

text \<open>No call adds to the answers the world still holds.\<close>

definition spent :: "world \<Rightarrow> world \<Rightarrow> bool" where
  "spent w w' \<longleftrightarrow>
     length (completions w') \<le> length (completions w) \<and> length (stdin w') \<le> length (stdin w)"

lemma spent_refl: "spent w w"
  by (simp add: spent_def)

lemma spent_trans: "spent w w1 \<Longrightarrow> spent w1 w2 \<Longrightarrow> spent w w2"
  by (auto simp: spent_def)

lemma and_then_Returns:
  "and_then x f = Returns b w2 \<longleftrightarrow> (\<exists>a w1. x = Returns a w1 \<and> f a w1 = Returns b w2)"
  by (cases x) (auto simp: and_then_def)

lemma lift_Returns: "lift r w = Returns a w' \<longleftrightarrow> r = Inr a \<and> w' = w"
  by (cases r) (auto simp: lift_def)

lemma completion_Returns:
  "completion req w = Returns m w' \<Longrightarrow>
     length (completions w') < length (completions w) \<and> stdin w' = stdin w"
  by (auto simp: completion_def Let_def split: list.splits completion.splits)

lemma repair_loop_spent: "repair_loop rt p w = Returns s w' \<Longrightarrow> spent w w'"
proof (induction rt p w rule: repair_loop.induct)
  case (1 rt p w)
  from "1.prems" obtain m w1 where c: "completion (Repair_request p) w = Returns m w1"
    by (subst (asm) repair_loop.simps) (auto split: outcome.splits)
  then have s1: "spent w w1" using completion_Returns[OF c] by (simp add: spent_def)
  show ?case
  proof (cases "msg_content m")
    case None
    then have "repair_loop rt p w1 = Returns s w'"
      using "1.prems" c by (subst (asm) repair_loop.simps) simp
    then show ?thesis using "1.IH"(1)[OF c None] s1 spent_trans by blast
  next
    case (Some t)
    show ?thesis
    proof (cases "json_loads rt t")
      case (Inl e)
      then have "repair_loop rt p w1 = Returns s w'"
        using "1.prems" c Some by (subst (asm) repair_loop.simps) simp
      then show ?thesis using "1.IH"(2)[OF c Some Inl] s1 spent_trans by blast
    next
      case (Inr v)
      then have "w' = w1" using "1.prems" c Some by (subst (asm) repair_loop.simps) simp
      then show ?thesis using s1 by simp
    qed
  qed
qed

lemma parse_tool_response_spent:
  assumes "parse_tool_response rt msg w = Returns a w'"
  shows "spent w w'"
proof (cases "msg_tool_calls msg")
  case Nil
  show ?thesis
  proof (cases "msg_content msg")
    case None
    with assms Nil show ?thesis by (simp add: parse_tool_response_def)
  next
    case (Some body)
    show ?thesis
    proof (cases "json_loads rt (py_strip body)")
      case (Inr data)
      with assms Nil Some show ?thesis
        by (simp add: parse_tool_response_def lift_Returns spent_refl)
    next
      case (Inl e)
      show ?thesis
      proof (cases "exn_kind e = JSONDecodeError")
        case False
        with assms Nil Some Inl show ?thesis
          by (auto simp: parse_tool_response_def spent_refl)
      next
        case True
        from assms Nil Some Inl True obtain fixed w1
          where f: "fix_json_with_llm rt (py_strip body) e w = Returns fixed w1"
            and r: "(case json_loads rt fixed of
                       Inr data \<Rightarrow> lift (action_of_document data) w1
                     | Inl e' \<Rightarrow> Raises e' w1) = Returns a w'"
          by (auto simp: parse_tool_response_def and_then_Returns)
        from r have "w' = w1"
          by (cases "json_loads rt fixed") (auto simp: lift_Returns)
        with f show ?thesis by (simp add: fix_json_with_llm_def repair_loop_spent)
      qed
    qed
  qed
next
  case (Cons tool_call rest)
  show ?thesis
  proof (cases "json_loads rt (snd tool_call)")
    case (Inr args)
    with assms Cons show ?thesis
      by (simp add: parse_tool_response_def lift_Returns spent_refl)
  next
    case (Inl e)
    show ?thesis
    proof (cases "exn_kind e = JSONDecodeError")
      case False
      with assms Cons Inl show ?thesis by (simp add: parse_tool_response_def)
    next
      case True
      from assms Cons Inl True obtain fixed w1
        where f: "fix_json_with_llm rt (snd tool_call) e w = Returns fixed w1" and "w' = w1"
        by (auto simp: parse_tool_response_def and_then_Returns lift_Returns)
      then show ?thesis by (simp add: fix_json_with_llm_def repair_loop_spent)
    qed
  qed
qed

lemma generate_next_step_spent:
  "generate_next_step rt ag w = Returns a w' \<Longrightarrow>
     length (completions w') < length (completions w) \<and> length (stdin w') \<le> length (stdin w)"
  unfolding generate_next_step_def
  by (fastforce simp: and_then_Returns lift_Returns spent_def
       dest!: completion_Returns parse_tool_response_spent)

lemma reflection_spent:
  "reflection rt ag purpose feedback w = Returns a w' \<Longrightarrow> spent w w'"
  unfolding reflection_def
  by (fastforce simp: and_then_Returns lift_Returns spent_def
       dest!: completion_Returns parse_tool_response_spent)

subsection \<open>solve: the GENERATING loop\<close>

text \<open>\<^verbatim>\<open>time.sleep(seconds)\<close>\<close>

definition sleep :: "nat \<Rightarrow> world \<Rightarrow> world" where
  "sleep seconds w = w\<lparr>slept := slept w + seconds\<rparr>"

text \<open>\<^verbatim>\<open>next_step = None; while next_step is None: ...\<close>: the loop leaves through \<^verbatim>\<open>break\<close> on a
  true value, and through its test on a value that is false but not \<^verbatim>\<open>None\<close>.\<close>

function generating :: "runtime \<Rightarrow> agent \<Rightarrow> world \<Rightarrow> json outcome" where
  "generating rt ag w =
     (case generate_next_step rt ag w of
        Starved \<Rightarrow> Starved
      | Raises e w' \<Rightarrow> Raises e w'
      | Returns next_step w' \<Rightarrow>
          if truthy next_step then Returns next_step w'
          else if next_step = JNull then generating rt ag (sleep 10 w')
          else Returns next_step (sleep 10 w'))"
  by pat_completeness auto
termination
  by (relation "measure (\<lambda>(rt, ag, w). length (completions w))")
     (auto simp: sleep_def dest: generate_next_step_spent)

declare generating.simps [simp del]

subsection \<open>solve: manual approval\<close>

text \<open>\<^verbatim>\<open>input(...)\<close>: the next line typed.\<close>

definition input_line :: "world \<Rightarrow> string outcome" where
  "input_line w = (case stdin w of [] \<Rightarrow> Starved | l # ls \<Rightarrow> Returns l (w\<lparr>stdin := ls\<rparr>))"

lemma input_line_Returns:
  "input_line w = Returns l w' \<Longrightarrow>
     length (stdin w') < length (stdin w) \<and> completions w' = completions w"
  by (auto simp: input_line_def split: list.splits)

text \<open>\<^verbatim>\<open>manual_approval_step\<close> returns the pair \<^verbatim>\<open>(approved, next_step)\<close>.\<close>

function manual_approval_step :: "runtime \<Rightarrow> agent \<Rightarrow> json \<Rightarrow> world \<Rightarrow> (bool \<times> json) outcome" where
  "manual_approval_step rt ag next_step w =
     (case and_also (py_get next_step ''arguments'' (JObj []))
             (\<lambda>arguments. py_get arguments ''purpose'' (JStr ''unspecified'')) of
        Inl e \<Rightarrow> Raises e w
      | Inr purpose \<Rightarrow>
          (case input_line w of
             Starved \<Rightarrow> Starved
           | Raises e w1 \<Rightarrow> Raises e w1
           | Returns choice w1 \<Rightarrow>
               if py_strip choice = ''1'' then Returns (True, next_step) w1
               else if py_strip choice = ''2'' then
                 (case input_line w1 of
                    Starved \<Rightarrow> Starved
                  | Raises e w2 \<Rightarrow> Raises e w2
                  | Returns feedback w2 \<Rightarrow>
                      (case reflection rt ag purpose (py_strip feedback) w2 of
                         Starved \<Rightarrow> Starved
                       | Raises e w3 \<Rightarrow> Raises e w3
                       | Returns revised w3 \<Rightarrow> manual_approval_step rt ag revised w3))
               else if py_strip choice = ''3'' then Returns (False, JNull) w1
               else manual_approval_step rt ag next_step w1))"
  by pat_completeness auto
termination
  by (relation "measure (\<lambda>(rt, ag, next_step, w). length (stdin w))")
     (auto simp: spent_def dest!: input_line_Returns reflection_spent)

declare manual_approval_step.simps [simp del]

lemma manual_approval_step_spent:
  "manual_approval_step rt ag next_step w = Returns r w' \<Longrightarrow> spent w w'"
proof (induction rt ag next_step w rule: manual_approval_step.induct)
  case (1 rt ag next_step w)
  from "1.prems" obtain purpose where p:
    "and_also (py_get next_step ''arguments'' (JObj []))
       (\<lambda>arguments. py_get arguments ''purpose'' (JStr ''unspecified'')) = Inr purpose"
    by (subst (asm) manual_approval_step.simps) (auto split: sum.splits)
  from "1.prems" p obtain choice w1 where c: "input_line w = Returns choice w1"
    by (subst (asm) manual_approval_step.simps) (auto split: outcome.splits)
  have s1: "spent w w1" using input_line_Returns[OF c] by (simp add: spent_def)
  consider (one) "py_strip choice = ''1''"
    | (two) "py_strip choice \<noteq> ''1''" "py_strip choice = ''2''"
    | (three) "py_strip choice \<noteq> ''1''" "py_strip choice \<noteq> ''2''" "py_strip choice = ''3''"
    | (other) "py_strip choice \<noteq> ''1''" "py_strip choice \<noteq> ''2''" "py_strip choice \<noteq> ''3''"
    by blast
  then show ?case
  proof cases
    case one
    with "1.prems" p c have "w' = w1"
      by (subst (asm) manual_approval_step.simps) simp
    with s1 show ?thesis by simp
  next
    case two
    with "1.prems" p c obtain feedback w2 where f: "input_line w1 = Returns feedback w2"
      by (subst (asm) manual_approval_step.simps) (auto split: outcome.splits)
    with "1.prems" p c two obtain revised w3
      where r: "reflection rt ag purpose (py_strip feedback) w2 = Returns revised w3"
      by (subst (asm) manual_approval_step.simps) (auto split: outcome.splits)
    with "1.prems" p c two f have again: "manual_approval_step rt ag revised w3 = Returns r w'"
      by (subst (asm) manual_approval_step.simps) simp
    have "spent w3 w'" using "1.IH"(1)[OF p c two f r again] .
    moreover have "spent w1 w2" using input_line_Returns[OF f] by (simp add: spent_def)
    moreover have "spent w2 w3" using reflection_spent[OF r] .
    ultimately show ?thesis using s1 spent_trans by blast
  next
    case three
    with "1.prems" p c have "w' = w1"
      by (subst (asm) manual_approval_step.simps) simp
    with s1 show ?thesis by simp
  next
    case other
    with "1.prems" p c have again: "manual_approval_step rt ag next_step w1 = Returns r w'"
      by (subst (asm) manual_approval_step.simps) simp
    have "spent w1 w'" using "1.IH"(2)[OF p c other again] .
    with s1 show ?thesis using spent_trans by blast
  qed
qed

subsection \<open>solve: EXECUTING, ANALYZING, the flag check\<close>

text \<open>The name, the arguments and the content of an action:
  \<^verbatim>\<open>next_step.get("tool_name")\<close>, \<^verbatim>\<open>next_step.get("arguments", {})\<close>,
  \<^verbatim>\<open>arguments.get("content", "")\<close>.\<close>

definition read_action :: "json \<Rightarrow> exn + json \<times> json \<times> json" where
  "read_action next_step =
     and_also (py_get next_step ''tool_name'' JNull) (\<lambda>tool_name.
     and_also (py_get next_step ''arguments'' (JObj [])) (\<lambda>arguments.
     and_also (py_get arguments ''content'' (JStr [])) (\<lambda>content.
       Inr (tool_name, arguments, content))))"

text \<open>\<^verbatim>\<open>tool.execute(arguments)\<close>: what the tool does is the world's.\<close>

definition execute :: "string \<Rightarrow> json \<Rightarrow> world \<Rightarrow> tool_result outcome" where
  "execute name arguments w =
     (case tool_results w of
        [] \<Rightarrow> Starved
      | r # rs \<Rightarrow> Returns r (w\<lparr>tool_results := rs, executed := executed w @ [(name, arguments)]\<rparr>))"

text \<open>The EXECUTING phase: the output of the step. \<^verbatim>\<open>tool_name in self.tools\<close> hashes the name.\<close>

definition execute_tool :: "agent \<Rightarrow> json \<Rightarrow> json \<Rightarrow> world \<Rightarrow> string outcome" where
  "execute_tool ag tool_name arguments w =
     (case hash_key tool_name of
        Inl e \<Rightarrow> Raises e w
      | Inr key \<Rightarrow>
          (case tool_name of
             JStr name \<Rightarrow>
               if name \<in> set (tools ag)
               then (case execute name arguments w of
                       Starved \<Rightarrow> Starved
                     | Raises e w' \<Rightarrow> Raises e w'
                     | Returns (Tool_returns stdout stderr) w' \<Rightarrow> Returns (stdout @ stderr) w'
                     | Returns (Tool_raises e) w' \<Rightarrow> Returns (''Tool execution error: '' @ exn_text e) w')
               else Returns (''Error: tool ''@ [CHR 0x27] @ name @ [CHR 0x27] @ '' was not found'') w
           | _ \<Rightarrow> Returns (''Error: tool ''@ [CHR 0x27] @ py_str tool_name @ [CHR 0x27] @ '' was not found'') w))"

text \<open>analyzer.py, \<^verbatim>\<open>analyze_step_output\<close>: a reply that parses to something other than a
  dictionary falls out of the \<^verbatim>\<open>try\<close> and the method returns \<^verbatim>\<open>None\<close>; a reply without text
  makes \<^verbatim>\<open>json.loads\<close> raise \<^verbatim>\<open>TypeError\<close>, which is not caught.\<close>

definition analyze_step_output :: "runtime \<Rightarrow> memory \<Rightarrow> nat \<Rightarrow> json \<Rightarrow> string \<Rightarrow> world \<Rightarrow> json outcome" where
  "analyze_step_output rt mem step_num content output w =
     and_then (lift (get_summary True mem) w) (\<lambda>history_summary w1.
     and_then (completion (Analysis_request (int step_num) content (take 4096 output) history_summary) w1)
       (\<lambda>response w2.
          case msg_content response of
            None \<Rightarrow> Raises (Exn TypeError
                       ''the JSON object must be str, bytes or bytearray, not NoneType'') w2
          | Some reply \<Rightarrow>
              (case json_loads rt reply of
                 Inr result \<Rightarrow> (case result of JObj d \<Rightarrow> Returns result w2 | _ \<Rightarrow> Returns JNull w2)
               | Inl e \<Rightarrow>
                   if exn_kind e = JSONDecodeError \<or> exn_kind e = KeyError
                   then and_then (fix_json_with_llm rt reply e w2) (\<lambda>fixed w3.
                          lift (json_loads rt fixed) w3)
                   else Raises e w2)))"

text \<open>\<^verbatim>\<open>self.confirm_flag_callback(flag_candidate)\<close>\<close>

definition confirm_flag :: "json \<Rightarrow> world \<Rightarrow> bool outcome" where
  "confirm_flag flag_candidate w =
     (case confirmations w of
        [] \<Rightarrow> Starved
      | b # bs \<Rightarrow> Returns b (w\<lparr>confirmations := bs, candidates := candidates w @ [flag_candidate]\<rparr>))"

text \<open>The flag check: the confirmed flag, if there is one.\<close>

definition flag_check :: "agent \<Rightarrow> json \<Rightarrow> world \<Rightarrow> json option outcome" where
  "flag_check ag analysis_result w =
     and_then (lift (py_get analysis_result ''flag_found'' (JBool False)) w) (\<lambda>flag_found w1.
       if truthy flag_found
       then and_then (lift (py_get analysis_result ''flag'' (JStr [])) w1) (\<lambda>flag_candidate w2.
              if has_confirm_callback ag
              then and_then (confirm_flag flag_candidate w2) (\<lambda>confirmed w3.
                     Returns (if confirmed then Some flag_candidate else None) w3)
              else Returns None w2)
       else Returns None w1)"

text \<open>The record \<^verbatim>\<open>solve\<close> hands to \<^verbatim>\<open>add_step\<close>.\<close>

definition step_record :: "nat \<Rightarrow> json \<Rightarrow> json \<Rightarrow> string \<Rightarrow> json \<Rightarrow> exn + dict" where
  "step_record step_count arguments content output analysis_result =
     and_also (py_get arguments ''purpose'' (JStr ''unspecified'')) (\<lambda>purpose.
       Inr [(''step'', JInt (int step_count)), (''purpose'', purpose), (''content'', content),
            (''output'', JStr output), (''analysis'', analysis_result)])"

subsection \<open>solve: one turn, and the loop\<close>

text \<open>A turn ends the loop with the value \<^verbatim>\<open>solve\<close> returns, or hands on to the next turn. Either
  way the agent is left with a memory.\<close>

datatype turn_end = Finished json agent | Continue agent

text \<open>What follows the flag check: the memory write and the termination check.\<close>

definition record_and_decide :: "runtime \<Rightarrow> nat \<Rightarrow> agent \<Rightarrow> json \<Rightarrow> json \<Rightarrow> string \<Rightarrow> json \<Rightarrow> world \<Rightarrow> turn_end outcome" where
  "record_and_decide rt step_count ag arguments content output analysis_result w =
     and_then (lift (step_record step_count arguments content output analysis_result) w) (\<lambda>step w1.
     and_then (add_step rt step (agent_memory ag) w1) (\<lambda>mem w2.
     and_then (lift (py_get analysis_result ''terminate'' (JBool False)) w2) (\<lambda>terminate w3.
       if truthy terminate
       then Returns (Finished (JStr ''Flag not found: terminated early'') (ag\<lparr>agent_memory := mem\<rparr>)) w3
       else Returns (Continue (ag\<lparr>agent_memory := mem\<rparr>)) w3)))"

text \<open>What follows the choice of the action: EXECUTING, ANALYZING, the flag check, and the
  rest.\<close>

definition run_action :: "runtime \<Rightarrow> nat \<Rightarrow> agent \<Rightarrow> json \<Rightarrow> json \<Rightarrow> json \<Rightarrow> world \<Rightarrow> turn_end outcome" where
  "run_action rt step_count ag tool_name arguments content w =
     and_then (execute_tool ag tool_name arguments w) (\<lambda>output w1.
     and_then (analyze_step_output rt (agent_memory ag) step_count content output w1)
       (\<lambda>analysis_result w2.
     and_then (flag_check ag analysis_result w2) (\<lambda>confirmed w3.
       case confirmed of
         Some flag_candidate \<Rightarrow> Returns (Finished flag_candidate ag) w3
       | None \<Rightarrow> record_and_decide rt step_count ag arguments content output analysis_result w3)))"

text \<open>The body of the \<^verbatim>\<open>while True\<close> loop of \<^verbatim>\<open>solve\<close>.\<close>

definition turn :: "runtime \<Rightarrow> nat \<Rightarrow> agent \<Rightarrow> world \<Rightarrow> turn_end outcome" where
  "turn rt step_count ag w =
     and_then (generating rt ag w) (\<lambda>next_step w1.
     and_then (lift (read_action next_step) w1) (\<lambda>(tool_name, arguments, content) w2.
       if auto_mode ag then run_action rt step_count ag tool_name arguments content w2
       else and_then (manual_approval_step rt ag next_step w2) (\<lambda>(approved, next_step') w3.
              if \<not> approved then Returns (Finished (JStr ''Solving aborted'') ag) w3
              else and_then (lift (read_action next_step') w3) (\<lambda>(tool_name', arguments', content') w4.
                     run_action rt step_count ag tool_name' arguments' content' w4))))"

lemma generating_spent:
  "generating rt ag w = Returns a w' \<Longrightarrow>
     length (completions w') < length (completions w) \<and> length (stdin w') \<le> length (stdin w)"
proof (induction rt ag w rule: generating.induct)
  case (1 rt ag w)
  from "1.prems" obtain next_step w1 where g: "generate_next_step rt ag w = Returns next_step w1"
    by (subst (asm) generating.simps) (auto split: outcome.splits)
  note s1 = generate_next_step_spent[OF g]
  show ?case
  proof (cases "truthy next_step")
    case True
    with "1.prems" g have "w' = w1" by (subst (asm) generating.simps) simp
    with s1 show ?thesis by simp
  next
    case False
    show ?thesis
    proof (cases "next_step = JNull")
      case True
      with "1.prems" g False have "generating rt ag (sleep 10 w1) = Returns a w'"
        by (subst (asm) generating.simps) simp
      from "1.IH"[OF g False True this] s1 show ?thesis by (simp add: sleep_def)
    next
      case notnull: False
      with "1.prems" g False have "w' = sleep 10 w1" by (subst (asm) generating.simps) simp
      with s1 show ?thesis by (simp add: sleep_def)
    qed
  qed
qed

lemma and_then_ReturnsE:
  assumes "and_then x f = Returns b w2"
  obtains a w1 where "x = Returns a w1" "f a w1 = Returns b w2"
  using assms by (auto simp: and_then_Returns)

lemma lift_ReturnsE:
  assumes "lift r w = Returns a w'"
  obtains "r = Inr a" "w' = w"
  using assms by (auto simp: lift_Returns)

lemma execute_tool_spent: "execute_tool ag tool_name arguments w = Returns out w' \<Longrightarrow> spent w w'"
  by (auto simp: execute_tool_def execute_def spent_def
           split: sum.split_asm json.split_asm if_split_asm list.split_asm outcome.split_asm
                  tool_result.split_asm)

lemma fix_json_with_llm_spent: "fix_json_with_llm rt s e w = Returns a w' \<Longrightarrow> spent w w'"
  by (simp add: fix_json_with_llm_def repair_loop_spent)

lemma completion_spent: "completion req w = Returns m w' \<Longrightarrow> spent w w'"
  by (auto simp: spent_def dest: completion_Returns)

lemma analyze_step_output_spent:
  assumes "analyze_step_output rt mem step_num content output w = Returns a w'"
  shows "spent w w'"
proof -
  from assms obtain history_summary response w2
    where c: "completion (Analysis_request (int step_num) content (take 4096 output) history_summary) w
                = Returns response w2"
      and r: "(case msg_content response of
                 None \<Rightarrow> Raises (Exn TypeError
                            ''the JSON object must be str, bytes or bytearray, not NoneType'') w2
               | Some reply \<Rightarrow>
                   (case json_loads rt reply of
                      Inr result \<Rightarrow> (case result of JObj d \<Rightarrow> Returns result w2 | _ \<Rightarrow> Returns JNull w2)
                    | Inl e \<Rightarrow>
                        if exn_kind e = JSONDecodeError \<or> exn_kind e = KeyError
                        then and_then (fix_json_with_llm rt reply e w2) (\<lambda>fixed w3.
                               lift (json_loads rt fixed) w3)
                        else Raises e w2)) = Returns a w'"
    unfolding analyze_step_output_def
    by (elim and_then_ReturnsE lift_ReturnsE) auto
  have "spent w2 w'"
    using r
    by (auto simp: spent_refl split: option.split_asm sum.split_asm json.split_asm if_split_asm
             elim!: and_then_ReturnsE lift_ReturnsE dest: fix_json_with_llm_spent)
  with completion_spent[OF c] show ?thesis using spent_trans by blast
qed

lemma confirm_flag_spent: "confirm_flag flag w = Returns b w' \<Longrightarrow> spent w w'"
  by (auto simp: confirm_flag_def spent_def split: list.split_asm)

lemma flag_check_spent: "flag_check ag analysis_result w = Returns r w' \<Longrightarrow> spent w w'"
  unfolding flag_check_def
  by (auto simp: spent_refl split: if_split_asm elim!: and_then_ReturnsE lift_ReturnsE)
     (erule confirm_flag_spent)+

lemma after_try_spent: "after_try r w1 = Returns m' w' \<Longrightarrow> w' = w1"
  by (auto simp: after_try_def split: sum.split_asm)

lemma compress_memory_spent:
  assumes "compress_memory rt m w = Returns m' w'"
  shows "spent w w'"
proof (cases "history m = []")
  case True
  with assms show ?thesis by (simp add: compress_memory_def spent_refl)
next
  case False
  with assms obtain prompt where p: "compress_prompt m = Inr prompt"
    by (auto simp: compress_memory_def split: sum.split_asm)
  show ?thesis
  proof (cases "completion (Compress_request (optimize_text prompt)) w")
    case Starved
    with assms False p show ?thesis by (simp add: compress_memory_def)
  next
    case (Raises e w1)
    with assms False p have "w' = w1" by (auto simp: compress_memory_def dest: after_try_spent)
    moreover from Raises have "spent w w1"
      by (auto simp: completion_def Let_def spent_def split: list.split_asm completion.split_asm)
    ultimately show ?thesis by simp
  next
    case (Returns msg w1)
    with assms False p have "w' = w1"
      by (auto simp: compress_memory_def split: option.split_asm sum.split_asm prod.split_asm
               dest: after_try_spent)
    with completion_spent[OF Returns] show ?thesis by simp
  qed
qed

lemma add_step_spent: "add_step rt step m w = Returns m' w' \<Longrightarrow> spent w w'"
  by (auto simp: add_step_def Let_def spent_refl split: sum.split_asm if_split_asm
           dest: compress_memory_spent)

lemma record_and_decide_spent:
  "record_and_decide rt step_count ag arguments content output analysis_result w = Returns r w'
     \<Longrightarrow> spent w w'"
  unfolding record_and_decide_def
  by (auto split: if_split_asm elim!: and_then_ReturnsE lift_ReturnsE dest: add_step_spent)

lemma run_action_spent:
  assumes "run_action rt step_count ag tool_name arguments content w = Returns r w'"
  shows "spent w w'"
proof -
  from assms obtain out w1 analysis_result w2 confirmed w3
    where 1: "execute_tool ag tool_name arguments w = Returns out w1"
      and 2: "analyze_step_output rt (agent_memory ag) step_count content out w1
                = Returns analysis_result w2"
      and 3: "flag_check ag analysis_result w2 = Returns confirmed w3"
      and 4: "(case confirmed of
                 Some flag_candidate \<Rightarrow> Returns (Finished flag_candidate ag) w3
               | None \<Rightarrow> record_and_decide rt step_count ag arguments content out
                           analysis_result w3) = Returns r w'"
    unfolding run_action_def by (elim and_then_ReturnsE) auto
  from 4 have "spent w3 w'"
    by (auto simp: spent_refl split: option.split_asm dest: record_and_decide_spent)
  with execute_tool_spent[OF 1] analyze_step_output_spent[OF 2] flag_check_spent[OF 3]
  show ?thesis using spent_trans by blast
qed

lemma turn_spent:
  assumes "turn rt step_count ag w = Returns r w'"
  shows "length (completions w') < length (completions w)"
proof -
  from assms obtain next_step w1 tool_name arguments content
    where g: "generating rt ag w = Returns next_step w1"
      and rest: "(if auto_mode ag then run_action rt step_count ag tool_name arguments content w1
         else and_then (manual_approval_step rt ag next_step w1) (\<lambda>(approved, next_step') w3.
                if \<not> approved then Returns (Finished (JStr ''Solving aborted'') ag) w3
                else and_then (lift (read_action next_step') w3) (\<lambda>(tool_name', arguments', content') w4.
                       run_action rt step_count ag tool_name' arguments' content' w4))) = Returns r w'"
    unfolding turn_def by (elim and_then_ReturnsE lift_ReturnsE) auto
  have "spent w1 w'"
  proof (cases "auto_mode ag")
    case True
    with rest show ?thesis by (auto dest: run_action_spent)
  next
    case False
    with rest obtain approved next_step' w3
      where m: "manual_approval_step rt ag next_step w1 = Returns (approved, next_step') w3"
        and after: "(if \<not> approved then Returns (Finished (JStr ''Solving aborted'') ag) w3
                else and_then (lift (read_action next_step') w3) (\<lambda>(tool_name', arguments', content') w4.
                       run_action rt step_count ag tool_name' arguments' content' w4)) = Returns r w'"
      by (auto elim!: and_then_ReturnsE)
    from after have "spent w3 w'"
      by (auto simp: spent_refl split: if_split_asm elim!: and_then_ReturnsE lift_ReturnsE
               dest: run_action_spent)
    with manual_approval_step_spent[OF m] show ?thesis using spent_trans by blast
  qed
  with generating_spent[OF g] show ?thesis by (simp add: spent_def)
qed

text \<open>\<^verbatim>\<open>solve\<close>: \<^verbatim>\<open>step_count\<close> starts at 0 and is incremented at the head of each turn. The
  result is the value returned and the agent as the call leaves it.\<close>

function solve_from :: "runtime \<Rightarrow> nat \<Rightarrow> agent \<Rightarrow> world \<Rightarrow> (json \<times> agent) outcome" where
  "solve_from rt step_count ag w =
     (case turn rt (step_count + 1) ag w of
        Starved \<Rightarrow> Starved
      | Raises e w' \<Rightarrow> Raises e w'
      | Returns end_of_turn w' \<Rightarrow>
          (case end_of_turn of
             Finished result ag' \<Rightarrow> Returns (result, ag') w'
           | Continue ag' \<Rightarrow> solve_from rt (step_count + 1) ag' w'))"
  by pat_completeness auto
termination
  by (relation "measure (\<lambda>(rt, step_count, ag, w). length (completions w))")
     (auto dest: turn_spent)

declare solve_from.simps [simp del]

definition solve :: "runtime \<Rightarrow> agent \<Rightarrow> world \<Rightarrow> (json \<times> agent) outcome" where
  "solve rt ag w = solve_from rt 0 ag w"

section \<open>Examples\<close>

subsection \<open>A runtime\<close>

text \<open>\<open>sample_loads\<close> agrees with \<^verbatim>\<open>json.loads\<close> on the texts of \<open>sample_documents\<close> and
  \<open>sample_malformed\<close>, the only texts the examples below hand to it. Python's \<^verbatim>\<open>hash\<close> of a
  string differs from process to process; the examples take the length.\<close>

definition sample_documents :: "(string \<times> json) list" where
  \<open>sample_documents =
     [(''{}'', JObj []),
      (''{"a": 1}'', JObj [(''a'', JInt 1)]),
      (''{"thought": "need more information"}'', JObj [(''thought'', JStr ''need more information'')]),
      (''{"content": "ls"}'', JObj [(''content'', JStr ''ls'')]),
      (''{"current_status": "stuck"}'', JObj [(''current_status'', JStr ''stuck'')]),
      (''{"key_findings": [], "failed_attempts": [], "current_status": "stuck", "next_steps": []}'',
         JObj [(''key_findings'', JArr []), (''failed_attempts'', JArr []),
               (''current_status'', JStr ''stuck''), (''next_steps'', JArr [])]),
      (''{"key_findings": ["port 80 open"], "failed_attempts": ["ls"], "current_status": "scanning", "next_steps": ["curl"]}'',
         JObj [(''key_findings'', JArr [JStr ''port 80 open'']), (''failed_attempts'', JArr [JStr ''ls'']),
               (''current_status'', JStr ''scanning''), (''next_steps'', JArr [JStr ''curl''])]),
      (''{"analysis": "flag printed", "success": true, "flag_found": true, "flag": "flag{x}", "terminate": true}'',
         JObj [(''analysis'', JStr ''flag printed''), (''success'', JBool True), (''flag_found'', JBool True),
               (''flag'', JStr ''flag{x}''), (''terminate'', JBool True)]),
      (''{"analysis": "flag printed", "success": true, "flag_found": true, "flag": "flag{x}", "terminate": false}'',
         JObj [(''analysis'', JStr ''flag printed''), (''success'', JBool True), (''flag_found'', JBool True),
               (''flag'', JStr ''flag{x}''), (''terminate'', JBool False)]),
      (''{"analysis": "nothing yet", "success": false, "flag_found": false, "terminate": false}'',
         JObj [(''analysis'', JStr ''nothing yet''), (''success'', JBool False), (''flag_found'', JBool False),
               (''terminate'', JBool False)]),
      (''{"tool_calls": [{"name": "execute_shell_command", "arguments": {"purpose": "list files", "content": "ls"}}]}'',
         JObj [(''tool_calls'', JArr [JObj [(''name'', JStr ''execute_shell_command''),
                 (''arguments'', JObj [(''purpose'', JStr ''list files''), (''content'', JStr ''ls'')])]])])]\<close>

definition sample_malformed :: "(string \<times> string) list" where
  \<open>sample_malformed =
     [(''{"a": 1'', ''Expecting ',' delimiter: line 1 column 8 (char 7)''),
      (''Sure! {"a": 1}'', ''Expecting value: line 1 column 1 (char 0)''),
      (''{"content": "ls"'', ''Expecting ',' delimiter: line 1 column 17 (char 16)''),
      (''The history so far is short.'', ''Expecting value: line 1 column 1 (char 0)'')]\<close>

definition sample_loads :: "string \<Rightarrow> exn + json" where
  "sample_loads s =
     (case map_of sample_documents s of
        Some v \<Rightarrow> Inr v
      | None \<Rightarrow> Inl (Exn JSONDecodeError (get_or sample_malformed s [])))"

definition sample_runtime :: runtime where
  "sample_runtime = \<lparr>json_loads = sample_loads, str_hash = (\<lambda>s. int (length s))\<rparr>"

definition reply_text :: "string \<Rightarrow> completion" where
  "reply_text s = Reply \<lparr>msg_tool_calls = [], msg_content = Some s\<rparr>"

definition quiet_world :: "completion list \<Rightarrow> world" where
  "quiet_world cs =
     \<lparr>completions = cs, stdin = [], confirmations = [], tool_results = [],
      requests = [], executed = [], candidates = [], slept = 0\<rparr>"

subsection \<open>Memories, agents and steps\<close>

text \<open>\<^verbatim>\<open>Memory(config, compression_threshold=t)\<close> as \<^verbatim>\<open>__init__\<close> leaves it.\<close>

definition new_memory :: "int \<Rightarrow> memory" where
  "new_memory t =
     \<lparr>compression_threshold = t, history = [], compressed_memory = [], key_facts = [],
      failed_attempts = []\<rparr>"

text \<open>An agent in automatic mode with one tool registered, a fresh memory with the default
  threshold of \<^verbatim>\<open>SolveAgent\<close>, and the confirmation callback set.\<close>

definition sample_agent :: agent where
  "sample_agent =
     \<lparr>agent_memory = new_memory 5, auto_mode = True, tools = [''execute_shell_command''],
      has_confirm_callback = True\<rparr>"

text \<open>A step record as \<^verbatim>\<open>solve\<close> builds it.\<close>

definition sample_step :: "nat \<Rightarrow> string \<Rightarrow> dict" where
  "sample_step n command =
     [(''step'', JInt (int n)), (''purpose'', JStr ''look around''), (''content'', JStr command),
      (''output'', JStr ''nothing''),
      (''analysis'', JObj [(''analysis'', JStr ''no progress''), (''success'', JBool True)])]"

text \<open>A run of \<^verbatim>\<open>add_step\<close> calls, one per step: the memory after each call.\<close>

fun add_steps :: "runtime \<Rightarrow> dict list \<Rightarrow> memory \<Rightarrow> world \<Rightarrow> memory list outcome" where
  "add_steps rt [] m w = Returns [] w"
| "add_steps rt (step # steps) m w =
     and_then (add_step rt step m w) (\<lambda>m1 w1.
     and_then (add_steps rt steps m1 w1) (\<lambda>ms w2. Returns (m1 # ms) w2))"

text \<open>A reply nested too deep for the JSON scanner: \<^verbatim>\<open>json.loads\<close> raises \<^verbatim>\<open>RecursionError\<close>, which
  is an \<^verbatim>\<open>Exception\<close> and no \<^verbatim>\<open>JSONDecodeError\<close>. \<open>deep_runtime\<close> is \<open>sample_runtime\<close> with that
  answer for texts of at least 100000 opening brackets.\<close>

definition deep_text :: string where
  "deep_text = replicate 100000 (CHR ''['')"

definition deep_loads :: "string \<Rightarrow> exn + json" where
  "deep_loads s =
     (if list_all (\<lambda>c. c = CHR ''['') s
      then (if 100000 \<le> length s
            then Inl (Exn RecursionError
                        ''maximum recursion depth exceeded while decoding a JSON array from a unicode string'')
            else sample_loads s)
      else sample_loads s)"

definition deep_runtime :: runtime where
  "deep_runtime = \<lparr>json_loads = deep_loads, str_hash = (\<lambda>s. int (length s))\<rparr>"

definition sample_call :: string where
  \<open>sample_call = ''{"tool_calls": [{"name": "execute_shell_command", "arguments": {"purpose": "list files", "content": "ls"}}]}''\<close>

definition sample_analysis :: string where
  \<open>sample_analysis = ''{"analysis": "nothing yet", "success": false, "flag_found": false, "terminate": false}''\<close>




definition sample_block :: string where
  \<open>sample_block = ''{"key_findings": ["port 80 open"], "failed_attempts": ["ls"], "current_status": "scanning", "next_steps": ["curl"]}''\<close>


text \<open>Two analysis replies that report a flag, one advising to stop and one not, and a world
  for one turn: the model proposes \<^verbatim>\<open>ls\<close>, the tool prints the flag, the analysis reports it,
  and the confirmation callback gives its verdict.\<close>

definition sample_flag_stop :: string where
  \<open>sample_flag_stop = ''{"analysis": "flag printed", "success": true, "flag_found": true, "flag": "flag{x}", "terminate": true}''\<close>


definition sample_arguments :: json where
  "sample_arguments = JObj [(''purpose'', JStr ''list files''), (''content'', JStr ''ls'')]"

definition flag_world :: "string \<Rightarrow> bool \<Rightarrow> world" where
  "flag_world analysis verdict =
     (quiet_world [reply_text sample_call, reply_text analysis])
       \<lparr>tool_results := [Tool_returns ''flag{x}'' []], confirmations := [verdict]\<rparr>"

section \<open>Properties of the JSON repair loop\<close>

lemma completion_Cons:
  "completions w = c # cs \<Longrightarrow>
   completion req w =
     (case c of Fails e \<Rightarrow> Raises e (w\<lparr>completions := cs, requests := requests w @ [req]\<rparr>)
      | Reply m \<Rightarrow> Returns m (w\<lparr>completions := cs, requests := requests w @ [req]\<rparr>))"
  by (simp add: completion_def Let_def)

lemma repair_loop_sound:
  "repair_loop rt p w = Returns fixed w' \<Longrightarrow>
     (\<exists>v. json_loads rt fixed = Inr v) \<and>
     (\<exists>used m. completions w = used @ Reply m # completions w' \<and> msg_content m = Some fixed \<and>
        list_all (rejected rt) used \<and>
        requests w' = requests w @ replicate (Suc (length used)) (Repair_request p))"
proof (induction rt p w rule: repair_loop.induct)
  case (1 rt p w)
  show ?case
  proof (cases "completions w")
    case Nil
    with "1.prems" show ?thesis by (subst (asm) repair_loop.simps) (simp add: completion_def)
  next
    case (Cons c cs)
    define w1 where "w1 = w\<lparr>completions := cs, requests := requests w @ [Repair_request p]\<rparr>"
    show ?thesis
    proof (cases c)
      case (Fails e)
      with Cons "1.prems" show ?thesis by (subst (asm) repair_loop.simps) (simp add: completion_Cons)
    next
      case (Reply m)
      have comp: "completion (Repair_request p) w = Returns m w1"
        using Cons Reply by (simp add: completion_Cons w1_def)
      have again: ?thesis
        if r: "repair_loop rt p w1 = Returns fixed w'" and rej: "rejected rt c"
          and why: "msg_content m = None \<or> (\<exists>s e. msg_content m = Some s \<and> json_loads rt s = Inl e)"
      proof -
        have ih: "(\<exists>v. json_loads rt fixed = Inr v) \<and>
          (\<exists>used m. completions w1 = used @ Reply m # completions w' \<and> msg_content m = Some fixed \<and>
            list_all (rejected rt) used \<and>
            requests w' = requests w1 @ replicate (Suc (length used)) (Repair_request p))"
          using why
        proof
          assume n: "msg_content m = None"
          show ?thesis using "1.IH"(1)[OF comp n r] .
        next
          assume "\<exists>s e. msg_content m = Some s \<and> json_loads rt s = Inl e"
          then obtain s e where s: "msg_content m = Some s" and e: "json_loads rt s = Inl e" by blast
          show ?thesis using "1.IH"(2)[OF comp s e r] .
        qed
        then obtain used m' where u: "completions w1 = used @ Reply m' # completions w'"
          "msg_content m' = Some fixed" "list_all (rejected rt) used"
          "requests w' = requests w1 @ replicate (Suc (length used)) (Repair_request p)"
          by blast
        have "completions w = (c # used) @ Reply m' # completions w'"
          using u(1) Cons by (simp add: w1_def)
        moreover have "list_all (rejected rt) (c # used)" using u(3) rej by simp
        moreover have "requests w' = requests w @ replicate (Suc (length (c # used))) (Repair_request p)"
          using u(4) by (simp add: w1_def)
        ultimately show ?thesis using ih u(2) by blast
      qed
      show ?thesis
      proof (cases "msg_content m")
        case None
        have "repair_loop rt p w1 = Returns fixed w'"
          using "1.prems" comp None by (subst (asm) repair_loop.simps) simp
        moreover have "rejected rt c" using Reply None by (simp add: rejected_def)
        ultimately show ?thesis using again None by blast
      next
        case (Some s)
        show ?thesis
        proof (cases "json_loads rt s")
          case (Inl e)
          have "repair_loop rt p w1 = Returns fixed w'"
            using "1.prems" comp Some Inl by (subst (asm) repair_loop.simps) simp
          moreover have "rejected rt c" using Reply Some Inl by (simp add: rejected_def)
          ultimately show ?thesis using again Some Inl by blast
        next
          case (Inr v)
          have eq: "fixed = s \<and> w' = w1"
            using "1.prems" comp Some Inr by (subst (asm) repair_loop.simps) simp
          have "completions w = [] @ Reply m # completions w'"
            using Cons Reply eq by (simp add: w1_def)
          moreover have "requests w' = requests w @ replicate (Suc (length ([]::completion list))) (Repair_request p)"
            using eq by (simp add: w1_def)
          moreover have "list_all (rejected rt) []" by simp
          ultimately show ?thesis using Inr Some eq by blast
        qed
      qed
    qed
  qed
qed

text \<open>Enough answers give a result: the loop returns the first reply that parses, when
  no completion call before it raises.\<close>

lemma repair_loop_complete:
  "completions w = bad @ Reply m # rest \<Longrightarrow> list_all (rejected rt) bad \<Longrightarrow>
   msg_content m = Some s \<Longrightarrow> json_loads rt s = Inr v \<Longrightarrow>
   \<exists>w'. repair_loop rt p w = Returns s w' \<and> completions w' = rest"
proof (induction bad arbitrary: w)
  case Nil
  then show ?case by (subst repair_loop.simps) (simp add: completion_Cons)
next
  case (Cons c bad)
  define w1 where "w1 = w\<lparr>completions := bad @ Reply m # rest, requests := requests w @ [Repair_request p]\<rparr>"
  have ih: "\<exists>w'. repair_loop rt p w1 = Returns s w' \<and> completions w' = rest"
    using Cons.IH[of w1] Cons.prems by (simp add: w1_def)
  have "repair_loop rt p w = repair_loop rt p w1"
    using Cons.prems(1,2)
    by (subst repair_loop.simps, cases c)
       (auto simp: completion_Cons rejected_def w1_def split: option.splits sum.splits)
  then show ?case using ih by simp
qed

text \<open>
  Claim C9. Whenever \<^verbatim>\<open>fix_json_with_llm\<close> returns, the string it returns parses as JSON. It is
  the text of the last reply the loop read; every reply read before it had no text or text
  that did not parse; and every request of the loop was the one repair prompt, which names
  the malformed text and ends with the error description.
\<close>

theorem fix_json_with_llm_returns_valid_json:
  assumes "fix_json_with_llm rt json_str err_content w = Returns fixed w'"
  shows "(\<exists>v. json_loads rt fixed = Inr v) \<and>
         (\<exists>used m. completions w = used @ Reply m # completions w' \<and> msg_content m = Some fixed \<and>
            list_all (rejected rt) used \<and>
            requests w' = requests w @
              replicate (Suc (length used)) (Repair_request (fix_prompt json_str err_content))) \<and>
         sublist (''Malformed JSON: '' @ json_str) (fix_prompt json_str err_content) \<and>
         suffix (''Error message: '' @ exn_text err_content) (fix_prompt json_str err_content)"
proof -
  have "sublist (''Malformed JSON: '' @ json_str) (fix_prompt json_str err_content)"
    unfolding fix_prompt_def sublist_def by (metis append.assoc)
  moreover have "suffix (''Error message: '' @ exn_text err_content) (fix_prompt json_str err_content)"
    unfolding fix_prompt_def suffix_def by (metis append.assoc)
  ultimately show ?thesis
    using repair_loop_sound[OF assms[unfolded fix_json_with_llm_def]] by blast
qed

text \<open>The loop at work: the first reply wraps the JSON in prose, the second has no text, the
  third parses and is returned; the fourth reply is left for the next caller.\<close>

theorem fix_json_with_llm_returns_valid_json_witness:
  \<open>fix_json_with_llm sample_runtime ''{"a": 1''
       (Exn JSONDecodeError ''Expecting ',' delimiter: line 1 column 8 (char 7)'')
       (quiet_world [reply_text ''Sure! {"a": 1}'', Reply \<lparr>msg_tool_calls = [], msg_content = None\<rparr>,
                     reply_text ''{"a": 1}'', reply_text ''{}''])
     = Returns ''{"a": 1}''
         ((quiet_world [reply_text ''{}''])
            \<lparr>requests := replicate 3 (Repair_request (fix_prompt ''{"a": 1''
               (Exn JSONDecodeError ''Expecting ',' delimiter: line 1 column 8 (char 7)'')))\<rparr>)
   \<and> (\<exists>v. json_loads sample_runtime ''{"a": 1}'' = Inr v)\<close>
proof -
  have run: \<open>fix_json_with_llm sample_runtime ''{"a": 1''
       (Exn JSONDecodeError ''Expecting ',' delimiter: line 1 column 8 (char 7)'')
       (quiet_world [reply_text ''Sure! {"a": 1}'', Reply \<lparr>msg_tool_calls = [], msg_content = None\<rparr>,
                     reply_text ''{"a": 1}'', reply_text ''{}''])
     = Returns ''{"a": 1}''
         ((quiet_world [reply_text ''{}''])
            \<lparr>requests := replicate 3 (Repair_request (fix_prompt ''{"a": 1''
               (Exn JSONDecodeError ''Expecting ',' delimiter: line 1 column 8 (char 7)'')))\<rparr>)\<close>
    by (simp add: fix_json_with_llm_def repair_loop.simps quiet_world_def reply_text_def completion_def
         sample_runtime_def sample_loads_def sample_documents_def sample_malformed_def get_or_def
         numeral_3_eq_3)
  from fix_json_with_llm_returns_valid_json[OF run] run show ?thesis by blast
qed

section \<open>Properties of the response normaliser\<close>

lemma with_defaults_str:
  "with_defaults (JStr s) =
     Inl (Exn AttributeError (repr_str ''str'' @ '' object has no attribute '' @ repr_str ''setdefault''))"
  by (simp add: with_defaults_def type_name_def)

text \<open>A structured call whose argument text does not parse never yields an action: after
  the repair the string is used as the arguments.\<close>

lemma structured_call_repair_never_returns:
  assumes "msg_tool_calls msg = tool_call # others" and "json_loads rt (snd tool_call) = Inl e"
  shows "parse_tool_response rt msg w \<noteq> Returns a w'"
  using assms
  by (auto simp: parse_tool_response_def with_defaults_str and_also_def lift_def and_then_def
           split: outcome.splits)

lemma has_key_setdefault: "has_key (setdefault d k v) k"
  by (auto simp: setdefault_def has_key_def map_add_def)

lemma has_key_setdefault_other: "has_key d k \<Longrightarrow> has_key (setdefault d k' v) k"
  by (auto simp: setdefault_def has_key_def map_add_def)

lemma with_defaults_Inr:
  "with_defaults args = Inr args' \<Longrightarrow>
     \<exists>d. args' = JObj d \<and> has_key d ''purpose'' \<and> has_key d ''content''"
  by (auto simp: with_defaults_def has_key_setdefault has_key_setdefault_other split: json.splits)

lemma and_also_Inr: "and_also r f = Inr b \<longleftrightarrow> (\<exists>a. r = Inr a \<and> f a = Inr b)"
  by (cases r) (auto simp: and_also_def)

lemma action_of_document_Inr:
  "action_of_document data = Inr a \<Longrightarrow>
     \<exists>name d. a = canonical name (JObj d) \<and> has_key d ''purpose'' \<and> has_key d ''content''"
  unfolding action_of_document_def
  by (auto simp: and_also_Inr split: if_splits dest!: with_defaults_Inr)

text \<open>What \<^verbatim>\<open>parse_tool_response\<close> returns is the empty dictionary or an action whose arguments
  are a dictionary with \<^verbatim>\<open>purpose\<close> and \<^verbatim>\<open>content\<close>; it is never \<^verbatim>\<open>None\<close>.\<close>

lemma parse_tool_response_Returns:
  assumes "parse_tool_response rt msg w = Returns a w'"
  shows "a = JObj [] \<or>
         (\<exists>name d. a = canonical name (JObj d) \<and> has_key d ''purpose'' \<and> has_key d ''content'')"
proof (cases "msg_tool_calls msg")
  case Nil
  show ?thesis
  proof (cases "msg_content msg")
    case None
    with assms Nil show ?thesis by (simp add: parse_tool_response_def)
  next
    case (Some body)
    show ?thesis
    proof (cases "json_loads rt (py_strip body)")
      case (Inr data)
      with assms Nil Some show ?thesis
        by (auto simp: parse_tool_response_def lift_Returns dest: action_of_document_Inr)
    next
      case (Inl e)
      show ?thesis
      proof (cases "exn_kind e = JSONDecodeError")
        case False
        with assms Nil Some Inl show ?thesis by (auto simp: parse_tool_response_def)
      next
        case True
        from assms Nil Some Inl True obtain fixed w1
          where r: "(case json_loads rt fixed of
                       Inr data \<Rightarrow> lift (action_of_document data) w1
                     | Inl e' \<Rightarrow> Raises e' w1) = Returns a w'"
          by (auto simp: parse_tool_response_def and_then_Returns)
        then show ?thesis
          by (cases "json_loads rt fixed") (auto simp: lift_Returns dest: action_of_document_Inr)
      qed
    qed
  qed
next
  case (Cons tool_call others)
  show ?thesis
  proof (cases "json_loads rt (snd tool_call)")
    case (Inl e)
    with assms Cons structured_call_repair_never_returns show ?thesis by blast
  next
    case (Inr args)
    with assms Cons show ?thesis
      by (auto simp: parse_tool_response_def lift_Returns and_also_Inr dest!: with_defaults_Inr)
  qed
qed

text \<open>
  Claim C3 says that a reply whose structured-call arguments fail to parse is repaired and
  parsed again. The free-text path does that; the structured-call path binds \<^verbatim>\<open>args\<close> to the
  repaired string itself, and \<^verbatim>\<open>args.setdefault\<close> raises \<^verbatim>\<open>AttributeError\<close>. Here the argument
  text lacks its closing brace and the repair returns the completed text.
\<close>

theorem parse_tool_response_structured_call_not_reparsed:
  \<open>parse_tool_response sample_runtime
      \<lparr>msg_tool_calls = [(''execute_shell_command'', ''{"content": "ls"'')], msg_content = None\<rparr>
      (quiet_world [reply_text ''{"content": "ls"}''])
    = Raises (Exn AttributeError
               (repr_str ''str'' @ '' object has no attribute '' @ repr_str ''setdefault''))
        ((quiet_world [])\<lparr>requests := [Repair_request (fix_prompt ''{"content": "ls"''
            (Exn JSONDecodeError ''Expecting ',' delimiter: line 1 column 17 (char 16)''))]\<rparr>)\<close>
  by code_simp

section \<open>Properties of the GENERATING loop\<close>

lemma py_strip_deep_text: "py_strip deep_text = deep_text"
proof -
  have "dropWhile is_space (replicate n (CHR ''['')) = replicate n (CHR ''['')" for n
    by (cases n) (simp_all add: is_space_def)
  then show ?thesis by (simp add: py_strip_def deep_text_def)
qed

lemma deep_loads_deep_text:
  "deep_loads deep_text = Inl (Exn RecursionError
     ''maximum recursion depth exceeded while decoding a JSON array from a unicode string'')"
  by (simp add: deep_loads_def deep_text_def list_all_iff)

text \<open>\<^verbatim>\<open>generate_next_step\<close> never returns \<^verbatim>\<open>None\<close>, so the loop never runs its body twice: one
  request, and ten seconds of sleep when the result is empty.\<close>

lemma generate_next_step_not_None: "generate_next_step rt ag w \<noteq> Returns JNull w'"
proof
  assume "generate_next_step rt ag w = Returns JNull w'"
  then obtain msg w2 where "parse_tool_response rt msg w2 = Returns JNull w'"
    unfolding generate_next_step_def by (auto simp: and_then_Returns)
  from parse_tool_response_Returns[OF this] show False by (simp add: canonical_def)
qed

lemma generating_once:
  "generating rt ag w =
     (case generate_next_step rt ag w of
        Starved \<Rightarrow> Starved
      | Raises e w' \<Rightarrow> Raises e w'
      | Returns next_step w' \<Rightarrow> Returns next_step (if truthy next_step then w' else sleep 10 w'))"
  using generate_next_step_not_None[of rt ag w]
  by (subst generating.simps) (auto split: outcome.splits)

lemma generating_deep_text:
  \<open>generating deep_runtime sample_agent (quiet_world (reply_text deep_text # rest))
     = Returns (JObj [])
         ((quiet_world rest)\<lparr>requests := [Next_request ''No history''], slept := 10\<rparr>)\<close>
  by (simp add: generating.simps generate_next_step_def sample_agent_def new_memory_def get_summary_def
        and_also_def and_then_def lift_def completion_def quiet_world_def reply_text_def
        parse_tool_response_def deep_runtime_def py_strip_deep_text deep_loads_deep_text truthy_def
        sleep_def)

lemma turn_deep_text:
  "turn deep_runtime 1 sample_agent (quiet_world [reply_text deep_text, reply_text sample_analysis])
     = run_action deep_runtime 1 sample_agent JNull (JObj []) (JStr [])
         ((quiet_world [reply_text sample_analysis])
            \<lparr>requests := [Next_request ''No history''], slept := 10\<rparr>)"
proof -
  have auto_mode: "auto_mode sample_agent" by (simp add: sample_agent_def)
  show ?thesis
    by (simp add: turn_def generating_deep_text and_then_def lift_def read_action_def and_also_def
          py_get_def get_or_def auto_mode)
qed

text \<open>
  Claim C1 says that a void result is retried after a backoff, never executed and never fatal.
  Two replies without a structured call show what the loop does. The first is a JSON object
  with no \<^verbatim>\<open>tool_calls\<close> entry: the turn ends with \<^verbatim>\<open>UnboundLocalError\<close>, the next reply never
  requested. The second is nested too deep to parse, for which \<^verbatim>\<open>parse_tool_response\<close> returns
  the empty dictionary: the loop sleeps ten seconds, makes no second request, and the turn goes
  on to execute the empty action, whose tool name is \<^verbatim>\<open>None\<close>; the step is analysed and stored.
\<close>

theorem generating_void_result_not_retried:
  \<open>turn sample_runtime 1 sample_agent
       (quiet_world [reply_text ''{"thought": "need more information"}'', reply_text sample_call])
     = Raises (Exn UnboundLocalError (''cannot access local variable '' @ repr_str ''func_name''
                   @ '' where it is not associated with a value''))
         ((quiet_world [reply_text sample_call])\<lparr>requests := [Next_request ''No history'']\<rparr>)
   \<and> generating deep_runtime sample_agent (quiet_world [reply_text deep_text, reply_text sample_call])
     = Returns (JObj [])
         ((quiet_world [reply_text sample_call])
            \<lparr>requests := [Next_request ''No history''], slept := 10\<rparr>)
   \<and> (case turn deep_runtime 1 sample_agent
              (quiet_world [reply_text deep_text, reply_text sample_analysis]) of
        Returns (Continue ag') w' \<Rightarrow>
          requests w' =
            [Next_request ''No history'',
             Analysis_request 1 (JStr []) (''Error: tool '' @ repr_str ''None'' @ '' was not found'')
               ''No history'']
          \<and> slept w' = 10 \<and> executed w' = []
          \<and> map (\<lambda>step. map_of step ''output'') (history (agent_memory ag'))
               = [Some (JStr (''Error: tool '' @ repr_str ''None'' @ '' was not found''))]
      | _ \<Rightarrow> False)\<close>
proof (intro conjI)
  show \<open>turn sample_runtime 1 sample_agent
       (quiet_world [reply_text ''{"thought": "need more information"}'', reply_text sample_call])
     = Raises (Exn UnboundLocalError (''cannot access local variable '' @ repr_str ''func_name''
                   @ '' where it is not associated with a value''))
         ((quiet_world [reply_text sample_call])\<lparr>requests := [Next_request ''No history'']\<rparr>)\<close>
    by code_simp
  show \<open>generating deep_runtime sample_agent (quiet_world [reply_text deep_text, reply_text sample_call])
     = Returns (JObj [])
         ((quiet_world [reply_text sample_call])
            \<lparr>requests := [Next_request ''No history''], slept := 10\<rparr>)\<close>
    by (rule generating_deep_text)
  show \<open>(case turn deep_runtime 1 sample_agent
              (quiet_world [reply_text deep_text, reply_text sample_analysis]) of
        Returns (Continue ag') w' \<Rightarrow>
          requests w' =
            [Next_request ''No history'',
             Analysis_request 1 (JStr []) (''Error: tool '' @ repr_str ''None'' @ '' was not found'')
               ''No history'']
          \<and> slept w' = 10 \<and> executed w' = []
          \<and> map (\<lambda>step. map_of step ''output'') (history (agent_memory ag'))
               = [Some (JStr (''Error: tool '' @ repr_str ''None'' @ '' was not found''))]
      | _ \<Rightarrow> False)\<close>
    unfolding turn_deep_text by code_simp
qed

section \<open>Properties of the session memory\<close>

text \<open>
  Claim C10. \<^verbatim>\<open>compress_memory()\<close> on an empty active history returns at once: the memory
  (history, key facts, failure counters, compressed blocks) is the one it was given, and the
  world is unchanged, so no request was made of the model.
\<close>

theorem compress_memory_empty_history_is_noop:
  "history m = [] \<Longrightarrow> compress_memory rt m w = Returns m w"
  by (simp add: compress_memory_def)

theorem compress_memory_empty_history_is_noop_witness:
  \<open>history (new_memory 5) = [] \<and>
   compress_memory sample_runtime (new_memory 5) (quiet_world [reply_text ''{}''])
     = Returns (new_memory 5) (quiet_world [reply_text ''{}''])\<close>
  using compress_memory_empty_history_is_noop
          [of "new_memory 5" sample_runtime "quiet_world [reply_text ''{}'']"]
  by (simp add: new_memory_def)






text \<open>
  Claim C2 says that every compaction of a non-empty history appends exactly one block. When
  the model returns a JSON object without \<^verbatim>\<open>key_findings\<close>, the object is stored, the
  \<^verbatim>\<open>print\<close> after the store raises \<^verbatim>\<open>KeyError\<close>, and the handler stores a fallback block as well:
  two blocks for one compaction. (The history is trimmed all the same.)
\<close>

theorem compress_memory_appends_two_blocks:
  \<open>(case compress_memory sample_runtime ((new_memory 5)\<lparr>history := [sample_step 1 ''ls'']\<rparr>)
             (quiet_world [reply_text ''{"current_status": "stuck"}'']) of
        Returns m' w' \<Rightarrow>
          compressed_memory m' =
            [[(''current_status'', JStr ''stuck''), (''source_steps'', JInt 1)],
             [(''fallback_summary'', JStr ''{"current_status": "stuck"}''), (''source_steps'', JInt 1)]]
          \<and> history m' = [sample_step 1 ''ls'']
          \<and> completions w' = []
      | _ \<Rightarrow> False)\<close>
  by code_simp

text \<open>
  Claim C8 says that \<^verbatim>\<open>get_summary\<close> never fails on a block the system can store. A block
  whose \<^verbatim>\<open>next_steps\<close> is the empty list is stored by \<^verbatim>\<open>compress_memory\<close> as the model returned
  it, and \<^verbatim>\<open>mem['next_steps'][0]\<close> then raises \<^verbatim>\<open>IndexError\<close>.
\<close>

theorem get_summary_fails_on_empty_next_steps:
  \<open>(case compress_memory sample_runtime ((new_memory 5)\<lparr>history := [sample_step 1 ''ls'']\<rparr>)
             (quiet_world [reply_text
                ''{"key_findings": [], "failed_attempts": [], "current_status": "stuck", "next_steps": []}'']) of
        Returns m' w' \<Rightarrow>
          compressed_memory m' =
            [[(''key_findings'', JArr []), (''failed_attempts'', JArr []),
              (''current_status'', JStr ''stuck''), (''next_steps'', JArr []),
              (''source_steps'', JInt 1)]]
          \<and> get_summary True m' = Inl (Exn IndexError ''list index out of range'')
      | _ \<Rightarrow> False)\<close>
  by code_simp

section \<open>Properties of the solving loop\<close>



text \<open>Scenario B of the specification: the tool raises, the analysis is asked about the error
  text, and the step is stored with it.\<close>

lemma scenario_tool_raises: \<open>(case turn sample_runtime 1 sample_agent
          ((quiet_world [reply_text sample_call, reply_text sample_analysis])
             \<lparr>tool_results := [Tool_raises (Exn OtherError ''connection lost'')]\<rparr>) of
      Returns (Continue ag') w' \<Rightarrow>
        requests w' = [Next_request ''No history'',
                       Analysis_request 1 (JStr ''ls'') ''Tool execution error: connection lost'' ''No history'']
        \<and> map (\<lambda>step. map_of step ''output'') (history (agent_memory ag'))
             = [Some (JStr ''Tool execution error: connection lost'')]
    | _ \<Rightarrow> False)\<close>
  by code_simp

text \<open>A list or a dictionary where the name should be (only a free-text reply can carry one)
  is no name: the membership test \<^verbatim>\<open>tool_name in self.tools\<close> cannot hash it.\<close>

lemma execute_tool_unhashable:
  "execute_tool ag (JArr xs) arguments w
     = Raises (Exn TypeError (''unhashable type: '' @ repr_str ''list'')) w"
  by (simp add: execute_tool_def hash_key_def)

section \<open>The compaction bound\<close>










section \<open>The compaction prompt\<close>








text \<open>Scenario A of the specification: five steps with threshold 5 give one compaction, on the
  fifth call, and one block with \<^verbatim>\<open>source_steps == 5\<close>.\<close>

lemma scenario_five_steps:
  \<open>(case add_steps sample_runtime
           [sample_step 1 ''a'', sample_step 2 ''b'', sample_step 3 ''c'', sample_step 4 ''d'',
            sample_step 5 ''e'']
           (new_memory 5) (quiet_world [reply_text sample_block]) of
      Returns ms w' \<Rightarrow>
        map (\<lambda>m. length (compressed_memory m)) ms = [0, 0, 0, 0, 1]
        \<and> map (\<lambda>block. map_of block ''source_steps'') (compressed_memory (last ms)) = [Some (JInt 5)]
        \<and> length (requests w') = 1
    | _ \<Rightarrow> False)\<close>
  by code_simp


section \<open>The flag check\<close>










text \<open>The same turn with the flag confirmed: \<^verbatim>\<open>solve\<close> returns the flag, and the agent's memory
  is still the empty one.\<close>

lemma confirmed_flag_ends_solve: \<open>solve sample_runtime sample_agent (flag_world sample_flag_stop True)
      = Returns (JStr ''flag{x}'', sample_agent)
          ((quiet_world [])\<lparr>requests := [Next_request ''No history'',
                Analysis_request 1 (JStr ''ls'') ''flag{x}'' ''No history''],
             executed := [(''execute_shell_command'', sample_arguments)],
             candidates := [JStr ''flag{x}'']\<rparr>)\<close>
  by code_simp

end
